theory Spec2Isabelle
  imports Main
begin

text \<open>
  The package \<open>goyeelight\<close> controls a Yeelight lamp. A method builds a command line,
  \<open>request\<close> opens a TCP connection, writes the line, reads one line and closes the
  connection, and \<open>response\<close> decodes the line read. The repository holds the package
  twice: in one file the methods return a string and an error, in \<open>goyeelight.go\<close> they
  return one string. Both are embedded below, after a model of what they call in the Go
  library: \<open>fmt.Fprintf\<close> and \<open>json.Unmarshal\<close>. The network is the environment of a
  call.
\<close>

section \<open>Bytes and UTF-8\<close>

text \<open>
  A Go string is a sequence of bytes; it is modelled as a \<open>string\<close> (a list of 8-bit
  characters). \<open>byte c\<close> is the numeric value of a byte.
\<close>

definition byte :: "char \<Rightarrow> nat" where
  "byte c = of_char c"

definition CRLF :: string where
  "CRLF = [CHR 0x0D, CHR 0x0A]"

definition isDigit :: "char \<Rightarrow> bool" where
  "isDigit c = (c \<in> set ''0123456789'')"

definition isCont :: "char \<Rightarrow> bool" where
  \<comment> \<open>a UTF-8 continuation byte, 0x80..0xBF\<close>
  "isCont c = (128 \<le> byte c \<and> byte c \<le> 191)"

text \<open>
  \<open>runeLen s\<close> follows the table of \<open>utf8.DecodeRune\<close>: the number of bytes of the
  well-formed UTF-8 sequence at the head of \<open>s\<close>, and 0 where \<open>DecodeRune\<close> answers
  \<open>(RuneError, 1)\<close> (a bad lead byte, a second byte outside the lead's accept range, a bad
  continuation byte, or a sequence cut short).
\<close>

definition runeLen :: "string \<Rightarrow> nat" where
  "runeLen s =
     (case s of
        [] \<Rightarrow> 0
      | b0 # r0 \<Rightarrow>
          (let x = byte b0 in
           if x < 128 then 1
           else if x < 194 then 0
           else if x < 224 then
             (case r0 of b1 # _ \<Rightarrow> if isCont b1 then 2 else 0 | [] \<Rightarrow> 0)
           else if x < 240 then
             (case r0 of
                b1 # b2 # _ \<Rightarrow>
                  (let lo = (if x = 224 then 160 else 128);
                       hi = (if x = 237 then 159 else 191)
                   in if lo \<le> byte b1 \<and> byte b1 \<le> hi \<and> isCont b2 then 3 else 0)
              | _ \<Rightarrow> 0)
           else if x < 245 then
             (case r0 of
                b1 # b2 # b3 # _ \<Rightarrow>
                  (let lo = (if x = 240 then 144 else 128);
                       hi = (if x = 244 then 143 else 191)
                   in if lo \<le> byte b1 \<and> byte b1 \<le> hi \<and> isCont b2 \<and> isCont b3 then 4 else 0)
              | _ \<Rightarrow> 0)
           else 0))"

definition runeError :: string where
  \<comment> \<open>U+FFFD as UTF-8\<close>
  "runeError = [CHR 0xEF, CHR 0xBF, CHR 0xBD]"

definition DecodeRune :: "string \<Rightarrow> string \<times> string" where
  \<comment> \<open>decode one rune and encode it again: the bytes written for it, and the rest\<close>
  "DecodeRune s =
     (let n = runeLen s in
      if n = 0 then (runeError, tl s) else (take n s, drop n s))"

section \<open>Library model: \<open>fmt.Fprintf\<close> called with a format and no operands\<close>

text \<open>
  \<open>request\<close> calls \<open>fmt.Fprintf(conn, cmd+"\r\n")\<close>: the command is the format string
  and the operand list is empty. \<open>doPrintf\<close> below follows \<open>(*pp).doPrintf\<close> for
  \<open>len(a) = 0\<close>: text up to a percent sign is copied; after a percent sign come flags,
  an optional argument index, width, precision, and the verb. With no operand the fast path
  for simple verbs is never taken, no index is in range, a star finds no operand, and a verb
  other than the percent sign has no operand to print.
\<close>

definition percentBangString :: string where "percentBangString = ''%!''"
definition missingString :: string where "missingString = ''(MISSING)''"
definition badIndexString :: string where "badIndexString = ''(BADINDEX)''"
definition noVerbString :: string where "noVerbString = ''%!(NOVERB)''"
definition badWidthString :: string where "badWidthString = ''%!(BADWIDTH)''"
definition badPrecString :: string where "badPrecString = ''%!(BADPREC)''"

definition tooLarge :: "int \<Rightarrow> bool" where
  "tooLarge x = (x > 1000000)"

fun parsenum_from :: "int \<Rightarrow> bool \<Rightarrow> string \<Rightarrow> int \<times> bool \<times> string" where
  "parsenum_from num isnum [] = (num, isnum, [])"
| "parsenum_from num isnum (c # cs) =
     (if isDigit c then
        (if tooLarge num then (0, False, [])
         else parsenum_from (num * 10 + (int (byte c) - 48)) True cs)
      else (num, isnum, c # cs))"

definition parsenum :: "string \<Rightarrow> int \<times> bool \<times> string" where
  \<comment> \<open>\<open>parsenum(s, start, end)\<close> on \<open>s[start:end]\<close>: the number, whether there is one,
      and what is left; an overlong number gives up at \<open>end\<close>\<close>
  "parsenum s = parsenum_from 0 False s"

definition parseArgNumber :: "string \<Rightarrow> int \<times> nat \<times> bool" where
  \<comment> \<open>the format starts with an opening bracket; result: index, width of the bracket
      expression, ok\<close>
  "parseArgNumber format =
     (if length format < 3 then (0, 1, False)
      else
        (let body = tl format;
             inner = takeWhile (\<lambda>c. c \<noteq> CHR '']'') body
         in if length inner = length body then (0, 1, False)
            else
              (let i = Suc (length inner) in
               case parsenum inner of
                 (width, ok, rest) \<Rightarrow>
                   if \<not> ok \<or> rest \<noteq> [] then (0, i + 1, False)
                   else (width - 1, i + 1, True))))"

definition argNumber :: "string \<Rightarrow> bool \<Rightarrow> string \<times> bool \<times> bool" where
  \<comment> \<open>\<open>argNumber\<close> with \<open>numArgs = 0\<close>: the rest of the format, \<open>found\<close>, and
      \<open>goodArgNum\<close> afterwards. No index satisfies \<open>index < numArgs\<close>.\<close>
  "argNumber format goodArgNum =
     (case format of
        [] \<Rightarrow> (format, False, goodArgNum)
      | c # _ \<Rightarrow>
          if c \<noteq> CHR ''['' then (format, False, goodArgNum)
          else
            (case parseArgNumber format of
               (index, wid, ok) \<Rightarrow>
                 if ok \<and> 0 \<le> index \<and> index < 0 then (drop wid format, True, goodArgNum)
                 else (drop wid format, ok, False)))"

definition isFlag :: "char \<Rightarrow> bool" where
  "isFlag c = (c \<in> set ''#0+- '')"

definition scanWidth :: "string \<Rightarrow> bool \<Rightarrow> bool \<Rightarrow> string \<times> string \<times> bool \<times> bool" where
  \<comment> \<open>width: a star (no operand to read it from) or a number; the bytes written, the
      rest of the format, \<open>afterIndex\<close> and \<open>goodArgNum\<close>\<close>
  "scanWidth s afterIndex good =
     (if s \<noteq> [] \<and> hd s = CHR ''*''
      then (badWidthString, tl s, False, good)
      else (case parsenum s of
              (wid, widPresent, r) \<Rightarrow>
                ([], r, afterIndex, good \<and> \<not> (afterIndex \<and> widPresent))))"

definition scanPrec :: "string \<Rightarrow> bool \<Rightarrow> bool \<Rightarrow> string \<times> string \<times> bool \<times> bool" where
  \<comment> \<open>precision: a dot, then an optional index, then a star or a number\<close>
  "scanPrec s afterIndex good =
     (if s \<noteq> [] \<and> hd s = CHR ''.''
      then
        (case argNumber (tl s) (good \<and> \<not> afterIndex) of
           (s', afterIndex', good') \<Rightarrow>
             if s' \<noteq> [] \<and> hd s' = CHR ''*''
             then (badPrecString, tl s', False, good')
             else (case parsenum s' of
                     (prec, precPresent, r) \<Rightarrow> ([], r, afterIndex', good')))
      else ([], s, afterIndex, good))"

definition scanVerb :: "string \<Rightarrow> bool \<Rightarrow> string \<times> string" where
  \<comment> \<open>the verb: none left, the percent sign, a bad index, or a missing operand\<close>
  "scanVerb s good =
     (if s = [] then (noVerbString, [])
      else
        (case DecodeRune s of
           (verb, r) \<Rightarrow>
             (if verb = ''%'' then ''%''
              else if \<not> good then percentBangString @ verb @ badIndexString
              else percentBangString @ verb @ missingString,
              r)))"

definition printVerb :: "string \<Rightarrow> string \<times> string" where
  \<comment> \<open>one pass of the format loop after a percent sign: the bytes written, and the rest
      of the format\<close>
  "printVerb s0 =
     (case argNumber (dropWhile isFlag s0) True of
        (s1, afterIndex1, good1) \<Rightarrow>
      case scanWidth s1 afterIndex1 good1 of
        (out1, s2, afterIndex2, good2) \<Rightarrow>
      case scanPrec s2 afterIndex2 good2 of
        (out2, s3, afterIndex3, good3) \<Rightarrow>
      case (if \<not> afterIndex3 then argNumber s3 good3 else (s3, afterIndex3, good3)) of
        (s4, afterIndex4, good4) \<Rightarrow>
      case scanVerb s4 good4 of
        (out3, s5) \<Rightarrow> (out1 @ out2 @ out3, s5))"

lemma parsenum_from_length:
  "length (snd (snd (parsenum_from num isnum s))) \<le> length s"
  by (induction s arbitrary: num isnum) (auto simp: le_SucI)

lemma parsenum_length:
  "parsenum s = (n, b, r) \<Longrightarrow> length r \<le> length s"
  using parsenum_from_length [of 0 False s] by (simp add: parsenum_def)

lemma argNumber_length:
  "argNumber s g = (r, f, g') \<Longrightarrow> length r \<le> length s"
  by (auto simp: argNumber_def split: list.splits if_splits prod.splits)

lemma DecodeRune_length:
  "s \<noteq> [] \<Longrightarrow> DecodeRune s = (v, r) \<Longrightarrow> length r < length s"
  by (cases s) (auto simp: DecodeRune_def Let_def split: if_splits)

lemma scanWidth_length:
  "scanWidth s a g = (out, r, a', g') \<Longrightarrow> length r \<le> length s"
  by (auto simp: scanWidth_def split: if_splits prod.splits dest: parsenum_length)

lemma scanPrec_length:
  assumes "scanPrec s a g = (out, r, a', g')"
  shows "length r \<le> length s"
proof (cases "s \<noteq> [] \<and> hd s = CHR ''.''")
  case False
  with assms show ?thesis by (simp add: scanPrec_def)
next
  case True
  obtain s' a1 g1 where A: "argNumber (tl s) (g \<and> \<not> a) = (s', a1, g1)"
    by (cases "argNumber (tl s) (g \<and> \<not> a)") auto
  have l: "length s' \<le> length s"
    using argNumber_length [OF A] by simp
  show ?thesis
  proof (cases "s' \<noteq> [] \<and> hd s' = CHR ''*''")
    case True
    with assms A \<open>s \<noteq> [] \<and> hd s = CHR ''.''\<close> have "r = tl s'"
      by (simp add: scanPrec_def)
    with l show ?thesis by simp
  next
    case False
    obtain n b r' where P: "parsenum s' = (n, b, r')"
      by (cases "parsenum s'") auto
    with assms A False \<open>s \<noteq> [] \<and> hd s = CHR ''.''\<close> have "r = r'"
      by (simp add: scanPrec_def)
    with parsenum_length [OF P] l show ?thesis by simp
  qed
qed

lemma scanVerb_length:
  "scanVerb s g = (out, r) \<Longrightarrow> length r \<le> length s"
  by (cases s) (auto simp: scanVerb_def DecodeRune_def Let_def split: if_splits)

lemma printVerb_length:
  assumes "printVerb s = (out, r)"
  shows "length r \<le> length s"
proof -
  obtain s1 a1 g1 where A: "argNumber (dropWhile isFlag s) True = (s1, a1, g1)"
    by (cases "argNumber (dropWhile isFlag s) True") auto
  obtain o1 s2 a2 g2 where W: "scanWidth s1 a1 g1 = (o1, s2, a2, g2)"
    by (cases "scanWidth s1 a1 g1") auto
  obtain o2 s3 a3 g3 where P: "scanPrec s2 a2 g2 = (o2, s3, a3, g3)"
    by (cases "scanPrec s2 a2 g2") auto
  obtain s4 a4 g4 where I:
    "(if \<not> a3 then argNumber s3 g3 else (s3, a3, g3)) = (s4, a4, g4)"
    by (cases "if \<not> a3 then argNumber s3 g3 else (s3, a3, g3)") auto
  obtain o3 s5 where V: "scanVerb s4 g4 = (o3, s5)"
    by (cases "scanVerb s4 g4") auto
  have "r = s5"
    using assms A W P I V by (simp add: printVerb_def)
  moreover have "length s1 \<le> length s"
    using argNumber_length [OF A] length_dropWhile_le [of isFlag s] by simp
  moreover have "length s2 \<le> length s1" by (rule scanWidth_length [OF W])
  moreover have "length s3 \<le> length s2" by (rule scanPrec_length [OF P])
  moreover have "length s4 \<le> length s3"
  proof (cases a3)
    case True with I show ?thesis by simp
  next
    case False with I show ?thesis by (simp add: argNumber_length)
  qed
  moreover have "length s5 \<le> length s4" by (rule scanVerb_length [OF V])
  ultimately show ?thesis by simp
qed

function doPrintf :: "string \<Rightarrow> string" where
  "doPrintf [] = []"
| "doPrintf (c # cs) =
     (if c = CHR ''%''
      then (case printVerb cs of (out, rest) \<Rightarrow> out @ doPrintf rest)
      else c # doPrintf cs)"
  by pat_completeness auto
termination
  by (relation "measure length")
     (auto simp: less_Suc_eq_le intro: printVerb_length [OF sym])

definition Fprintf :: "string \<Rightarrow> string" where
  \<comment> \<open>the bytes handed to the writer's single \<open>Write\<close> call\<close>
  "Fprintf format = doPrintf format"

section \<open>Library model: the scanner of \<open>encoding/json\<close>\<close>

text \<open>
  \<open>json.Unmarshal\<close> first runs \<open>checkValid\<close>: the scanner, a state machine with a stack
  (\<open>parseState\<close>), is stepped over every byte, and a syntax error stops \<open>Unmarshal\<close>
  before anything is stored. Only then the decoder walks the same bytes. The model keeps
  the scanner's states and transitions and lets it build, as it goes, the tree of values
  the decoder will walk: a literal with its text, an array and an object with their text
  (what \<open>json.RawMessage\<close> receives) and their parts.
\<close>

datatype jvalue =
    Literal string
  | Array string "jvalue list"
  | Object string "(string \<times> jvalue) list"

fun raw :: "jvalue \<Rightarrow> string" where
  "raw (Literal r) = r"
| "raw (Array r _) = r"
| "raw (Object r _) = r"

datatype step =
    BeginValueOrEmpty | BeginValue | BeginStringOrEmpty | BeginString
  | EndValue | EndTop
  | InString | InStringEsc | InStringEscU | InStringEscU1 | InStringEscU12 | InStringEscU123
  | Neg | St1 | St0 | Dot | Dot0 | StE | StESign | StE0
  | StT | StTr | StTru | StF | StFa | StFal | StFals | StN | StNu | StNul
  | ScanError

datatype parseState = parseObjectKey | parseObjectValue | parseArrayValue

text \<open>
  An entry of the stack: the scanner's \<open>parseState\<close> value, the offset at which the
  composite value starts, the elements read so far (of an array), the members read so far
  (of an object) and the key waiting for its value.
\<close>

datatype frame = Frame parseState nat "jvalue list" "(string \<times> jvalue) list" string

record scanner =
  step :: step
  parseState :: "frame list"
  bytes :: nat
  seen :: string
  lit :: string
  tree :: "jvalue option"

definition maxNestingDepth :: nat where
  "maxNestingDepth = 10000"

definition isSpace :: "char \<Rightarrow> bool" where
  "isSpace c = (c = CHR '' '' \<or> c = CHR 0x09 \<or> c = CHR 0x0D \<or> c = CHR 0x0A)"

definition isHex :: "char \<Rightarrow> bool" where
  "isHex c = (c \<in> set ''0123456789abcdefABCDEF'')"

definition scanner_error :: "scanner \<Rightarrow> scanner" where
  \<comment> \<open>\<open>s.error(c, context)\<close>: the scanner stays in the error state\<close>
  "scanner_error s = s\<lparr>step := ScanError\<rparr>"

definition store :: "jvalue \<Rightarrow> scanner \<Rightarrow> scanner" where
  \<comment> \<open>a value is complete: it is the top-level value, a key, a member's value or an
      element\<close>
  "store v s =
     (case parseState s of
        [] \<Rightarrow> s\<lparr>tree := Some v\<rparr>
      | Frame ps st els mems key # fs \<Rightarrow>
          (case ps of
             parseObjectKey \<Rightarrow> s\<lparr>parseState := Frame ps st els mems (raw v) # fs\<rparr>
           | parseObjectValue \<Rightarrow> s\<lparr>parseState := Frame ps st els (mems @ [(key, v)]) key # fs\<rparr>
           | parseArrayValue \<Rightarrow> s\<lparr>parseState := Frame ps st (els @ [v]) mems key # fs\<rparr>))"

definition endLiteral :: "scanner \<Rightarrow> scanner" where
  "endLiteral s = store (Literal (rev (lit s))) (s\<lparr>lit := []\<rparr>)"

definition pushParseState :: "parseState \<Rightarrow> step \<Rightarrow> scanner \<Rightarrow> scanner" where
  "pushParseState newParseState successState s =
     (let s' = s\<lparr>parseState := Frame newParseState (bytes s - 1) [] [] [] # parseState s\<rparr>
      in if length (parseState s') \<le> maxNestingDepth
         then s'\<lparr>step := successState\<rparr>
         else scanner_error s')"

definition popParseState :: "scanner \<Rightarrow> scanner" where
  "popParseState s =
     (case parseState s of
        [] \<Rightarrow> scanner_error s
      | Frame ps st els mems key # fs \<Rightarrow>
          (let r = rev (take (bytes s - st) (seen s));
               v = (if ps = parseArrayValue then Array r els else Object r mems)
           in (store v (s\<lparr>parseState := fs\<rparr>))
                \<lparr>step := (if fs = [] then EndTop else EndValue)\<rparr>))"

definition stateEndValue :: "char \<Rightarrow> scanner \<Rightarrow> scanner" where
  "stateEndValue c s =
     (case parseState s of
        [] \<Rightarrow> if isSpace c then s\<lparr>step := EndTop\<rparr> else scanner_error s
      | Frame ps st els mems key # fs \<Rightarrow>
          if isSpace c then s\<lparr>step := EndValue\<rparr>
          else
            (case ps of
               parseObjectKey \<Rightarrow>
                 if c = CHR '':''
                 then s\<lparr>parseState := Frame parseObjectValue st els mems key # fs,
                        step := BeginValue\<rparr>
                 else scanner_error s
             | parseObjectValue \<Rightarrow>
                 if c = CHR '',''
                 then s\<lparr>parseState := Frame parseObjectKey st els mems key # fs,
                        step := BeginString\<rparr>
                 else if c = CHR ''}'' then popParseState s
                 else scanner_error s
             | parseArrayValue \<Rightarrow>
                 if c = CHR '','' then s\<lparr>step := BeginValue\<rparr>
                 else if c = CHR '']'' then popParseState s
                 else scanner_error s))"

definition beginLiteral :: "char \<Rightarrow> step \<Rightarrow> scanner \<Rightarrow> scanner" where
  "beginLiteral c st s = s\<lparr>step := st, lit := [c]\<rparr>"

definition inLiteral :: "char \<Rightarrow> step \<Rightarrow> scanner \<Rightarrow> scanner" where
  "inLiteral c st s = s\<lparr>step := st, lit := c # lit s\<rparr>"

definition stateBeginValue :: "char \<Rightarrow> scanner \<Rightarrow> scanner" where
  "stateBeginValue c s =
     (if isSpace c then s
      else if c = CHR ''{'' then pushParseState parseObjectKey BeginStringOrEmpty s
      else if c = CHR ''['' then pushParseState parseArrayValue BeginValueOrEmpty s
      else if c = CHR 0x22 then beginLiteral c InString s
      else if c = CHR ''-'' then beginLiteral c Neg s
      else if c = CHR ''0'' then beginLiteral c St0 s
      else if c = CHR ''t'' then beginLiteral c StT s
      else if c = CHR ''f'' then beginLiteral c StF s
      else if c = CHR ''n'' then beginLiteral c StN s
      else if isDigit c then beginLiteral c St1 s
      else scanner_error s)"

definition stateBeginValueOrEmpty :: "char \<Rightarrow> scanner \<Rightarrow> scanner" where
  "stateBeginValueOrEmpty c s =
     (if isSpace c then s
      else if c = CHR '']'' then stateEndValue c s
      else stateBeginValue c s)"

definition stateBeginString :: "char \<Rightarrow> scanner \<Rightarrow> scanner" where
  "stateBeginString c s =
     (if isSpace c then s
      else if c = CHR 0x22 then beginLiteral c InString s
      else scanner_error s)"

definition stateBeginStringOrEmpty :: "char \<Rightarrow> scanner \<Rightarrow> scanner" where
  "stateBeginStringOrEmpty c s =
     (if isSpace c then s
      else if c = CHR ''}'' then
        (case parseState s of
           [] \<Rightarrow> scanner_error s
         | Frame ps st els mems key # fs \<Rightarrow>
             stateEndValue c (s\<lparr>parseState := Frame parseObjectValue st els mems key # fs\<rparr>))
      else stateBeginString c s)"

definition stateEndTop :: "char \<Rightarrow> scanner \<Rightarrow> scanner" where
  "stateEndTop c s = (if isSpace c then s else scanner_error s)"

definition stateInString :: "char \<Rightarrow> scanner \<Rightarrow> scanner" where
  "stateInString c s =
     (if c = CHR 0x22 then (endLiteral (inLiteral c InString s))\<lparr>step := EndValue\<rparr>
      else if c = CHR 0x5C then inLiteral c InStringEsc s
      else if byte c < 32 then scanner_error s
      else inLiteral c InString s)"

definition stateInStringEsc :: "char \<Rightarrow> scanner \<Rightarrow> scanner" where
  "stateInStringEsc c s =
     (if c \<in> set ''bfnrt/'' \<or> c = CHR 0x5C \<or> c = CHR 0x22 then inLiteral c InString s
      else if c = CHR ''u'' then inLiteral c InStringEscU s
      else scanner_error s)"

definition stateHex :: "step \<Rightarrow> char \<Rightarrow> scanner \<Rightarrow> scanner" where
  \<comment> \<open>the four states after a backslash and u: a hexadecimal digit leads to the next\<close>
  "stateHex next c s = (if isHex c then inLiteral c next s else scanner_error s)"

definition endNumber :: "char \<Rightarrow> scanner \<Rightarrow> scanner" where
  \<comment> \<open>a byte that cannot continue the number ends it and is handled by
      \<open>stateEndValue\<close>\<close>
  "endNumber c s = stateEndValue c (endLiteral s)"

definition stateNeg :: "char \<Rightarrow> scanner \<Rightarrow> scanner" where
  "stateNeg c s =
     (if c = CHR ''0'' then inLiteral c St0 s
      else if isDigit c then inLiteral c St1 s
      else scanner_error s)"

definition state0 :: "char \<Rightarrow> scanner \<Rightarrow> scanner" where
  "state0 c s =
     (if c = CHR ''.'' then inLiteral c Dot s
      else if c = CHR ''e'' \<or> c = CHR ''E'' then inLiteral c StE s
      else endNumber c s)"

definition state1 :: "char \<Rightarrow> scanner \<Rightarrow> scanner" where
  "state1 c s = (if isDigit c then inLiteral c St1 s else state0 c s)"

definition stateDot :: "char \<Rightarrow> scanner \<Rightarrow> scanner" where
  "stateDot c s = (if isDigit c then inLiteral c Dot0 s else scanner_error s)"

definition stateDot0 :: "char \<Rightarrow> scanner \<Rightarrow> scanner" where
  "stateDot0 c s =
     (if isDigit c then inLiteral c Dot0 s
      else if c = CHR ''e'' \<or> c = CHR ''E'' then inLiteral c StE s
      else endNumber c s)"

definition stateESign :: "char \<Rightarrow> scanner \<Rightarrow> scanner" where
  "stateESign c s = (if isDigit c then inLiteral c StE0 s else scanner_error s)"

definition stateE :: "char \<Rightarrow> scanner \<Rightarrow> scanner" where
  "stateE c s =
     (if c = CHR ''+'' \<or> c = CHR ''-'' then inLiteral c StESign s else stateESign c s)"

definition stateE0 :: "char \<Rightarrow> scanner \<Rightarrow> scanner" where
  "stateE0 c s = (if isDigit c then inLiteral c StE0 s else endNumber c s)"

definition stateWord :: "char \<Rightarrow> step \<Rightarrow> char \<Rightarrow> scanner \<Rightarrow> scanner" where
  \<comment> \<open>inside true, false and null: the expected letter leads to the next state\<close>
  "stateWord expected next c s = (if c = expected then inLiteral c next s else scanner_error s)"

definition stateWordEnd :: "char \<Rightarrow> char \<Rightarrow> scanner \<Rightarrow> scanner" where
  \<comment> \<open>the last letter of true, false and null ends the literal\<close>
  "stateWordEnd expected c s =
     (if c = expected then (endLiteral (inLiteral c EndValue s))\<lparr>step := EndValue\<rparr>
      else scanner_error s)"

definition scanner_step :: "char \<Rightarrow> scanner \<Rightarrow> scanner" where
  \<comment> \<open>\<open>s.step(s, c)\<close>\<close>
  "scanner_step c s =
     (case step s of
        BeginValueOrEmpty \<Rightarrow> stateBeginValueOrEmpty c s
      | BeginValue \<Rightarrow> stateBeginValue c s
      | BeginStringOrEmpty \<Rightarrow> stateBeginStringOrEmpty c s
      | BeginString \<Rightarrow> stateBeginString c s
      | EndValue \<Rightarrow> stateEndValue c s
      | EndTop \<Rightarrow> stateEndTop c s
      | InString \<Rightarrow> stateInString c s
      | InStringEsc \<Rightarrow> stateInStringEsc c s
      | InStringEscU \<Rightarrow> stateHex InStringEscU1 c s
      | InStringEscU1 \<Rightarrow> stateHex InStringEscU12 c s
      | InStringEscU12 \<Rightarrow> stateHex InStringEscU123 c s
      | InStringEscU123 \<Rightarrow> stateHex InString c s
      | Neg \<Rightarrow> stateNeg c s
      | St1 \<Rightarrow> state1 c s
      | St0 \<Rightarrow> state0 c s
      | Dot \<Rightarrow> stateDot c s
      | Dot0 \<Rightarrow> stateDot0 c s
      | StE \<Rightarrow> stateE c s
      | StESign \<Rightarrow> stateESign c s
      | StE0 \<Rightarrow> stateE0 c s
      | StT \<Rightarrow> stateWord (CHR ''r'') StTr c s
      | StTr \<Rightarrow> stateWord (CHR ''u'') StTru c s
      | StTru \<Rightarrow> stateWordEnd (CHR ''e'') c s
      | StF \<Rightarrow> stateWord (CHR ''a'') StFa c s
      | StFa \<Rightarrow> stateWord (CHR ''l'') StFal c s
      | StFal \<Rightarrow> stateWord (CHR ''s'') StFals c s
      | StFals \<Rightarrow> stateWordEnd (CHR ''e'') c s
      | StN \<Rightarrow> stateWord (CHR ''u'') StNu c s
      | StNu \<Rightarrow> stateWord (CHR ''l'') StNul c s
      | StNul \<Rightarrow> stateWordEnd (CHR ''l'') c s
      | ScanError \<Rightarrow> s)"

definition reset :: scanner where
  "reset = \<lparr>step = BeginValue, parseState = [], bytes = 0, seen = [], lit = [], tree = None\<rparr>"

definition scan :: "scanner \<Rightarrow> char \<Rightarrow> scanner" where
  \<comment> \<open>one round of the loop of \<open>checkValid\<close>: count the byte, then step\<close>
  "scan s c = scanner_step c (s\<lparr>bytes := Suc (bytes s), seen := c # seen s\<rparr>)"

definition eof :: "scanner \<Rightarrow> scanner" where
  \<comment> \<open>at the end of the input a space is stepped, which ends a top-level number\<close>
  "eof s =
     (if step s = ScanError \<or> step s = EndTop then s
      else (let s' = scanner_step (CHR '' '') s
            in if step s' = EndTop then s' else scanner_error s'))"

definition checkValid :: "string \<Rightarrow> jvalue option" where
  \<comment> \<open>\<open>None\<close> is a syntax error; otherwise the top-level value\<close>
  "checkValid data =
     (let s = eof (foldl scan reset data)
      in if step s = EndTop then tree s else None)"

section \<open>Library model: the decoder of \<open>encoding/json\<close>\<close>

subsection \<open>String literals\<close>

definition hexVal :: "char \<Rightarrow> int" where
  "hexVal c =
     (if isDigit c then int (byte c) - 48
      else if c \<in> set ''abcdef'' then int (byte c) - 87
      else int (byte c) - 55)"

definition getu4 :: "string \<Rightarrow> int option" where
  \<comment> \<open>the code unit of a backslash, u and four hexadecimal digits at the head\<close>
  "getu4 s =
     (case s of
        b # u # h1 # h2 # h3 # h4 # _ \<Rightarrow>
          if b = CHR 0x5C \<and> u = CHR ''u'' \<and> isHex h1 \<and> isHex h2 \<and> isHex h3 \<and> isHex h4
          then Some (((hexVal h1 * 16 + hexVal h2) * 16 + hexVal h3) * 16 + hexVal h4)
          else None
      | _ \<Rightarrow> None)"

definition IsSurrogate :: "int \<Rightarrow> bool" where
  "IsSurrogate r = (55296 \<le> r \<and> r < 57344)"

definition utf16_DecodeRune :: "int \<Rightarrow> int option \<Rightarrow> int option" where
  \<comment> \<open>a high and a low surrogate give a code point; \<open>None\<close> is the replacement
      character\<close>
  "utf16_DecodeRune r1 r2 =
     (case r2 of
        None \<Rightarrow> None
      | Some r2' \<Rightarrow>
          if 55296 \<le> r1 \<and> r1 < 56320 \<and> 56320 \<le> r2' \<and> r2' < 57344
          then Some ((r1 - 55296) * 1024 + (r2' - 56320) + 65536)
          else None)"

definition EncodeRune :: "int \<Rightarrow> string" where
  "EncodeRune r =
     (if r < 128 then [char_of r]
      else if r < 2048 then [char_of (192 + r div 64), char_of (128 + r mod 64)]
      else if IsSurrogate r \<or> r > 1114111 then runeError
      else if r < 65536 then
        [char_of (224 + r div 4096), char_of (128 + (r div 64) mod 64), char_of (128 + r mod 64)]
      else
        [char_of (240 + r div 262144), char_of (128 + (r div 4096) mod 64),
         char_of (128 + (r div 64) mod 64), char_of (128 + r mod 64)])"

definition simpleEscape :: "char \<Rightarrow> char option" where
  "simpleEscape e =
     (if e = CHR 0x22 \<or> e = CHR 0x5C \<or> e = CHR ''/'' \<or> e = CHR 0x27 then Some e
      else if e = CHR ''b'' then Some (CHR 0x08)
      else if e = CHR ''f'' then Some (CHR 0x0C)
      else if e = CHR ''n'' then Some (CHR 0x0A)
      else if e = CHR ''r'' then Some (CHR 0x0D)
      else if e = CHR ''t'' then Some (CHR 0x09)
      else None)"

text \<open>
  \<open>unquoteBytes\<close>: escapes are replaced, a surrogate pair becomes one code point, a lone
  surrogate and every byte that is not well-formed UTF-8 become U+FFFD. \<open>None\<close> is the
  \<open>ok = false\<close> of the source, which the decoder does not expect of a literal the scanner
  has accepted.
\<close>

function unquoteBody :: "string \<Rightarrow> string option" where
  "unquoteBody [] = Some []"
| "unquoteBody (c # cs) =
     (if c = CHR 0x5C then
        (case cs of
           [] \<Rightarrow> None
         | e # r \<Rightarrow>
             if e = CHR ''u'' then
               (case getu4 (c # cs) of
                  None \<Rightarrow> None
                | Some rr \<Rightarrow>
                    if IsSurrogate rr then
                      (case utf16_DecodeRune rr (getu4 (drop 4 r)) of
                         Some dec \<Rightarrow>
                           map_option ((@) (EncodeRune dec)) (unquoteBody (drop 6 (drop 4 r)))
                       | None \<Rightarrow> map_option ((@) runeError) (unquoteBody (drop 4 r)))
                    else map_option ((@) (EncodeRune rr)) (unquoteBody (drop 4 r)))
             else
               (case simpleEscape e of
                  None \<Rightarrow> None
                | Some x \<Rightarrow> map_option ((#) x) (unquoteBody r)))
      else if c = CHR 0x22 \<or> byte c < 32 then None
      else if byte c < 128 then map_option ((#) c) (unquoteBody cs)
      else (case DecodeRune (c # cs) of
              (bs, r) \<Rightarrow> map_option ((@) bs) (unquoteBody r)))"
  by pat_completeness auto
termination
proof (relation "measure length")
  fix c :: char and cs bs r :: string
  assume "(bs, r) = DecodeRune (c # cs)"
  then have "length r < length (c # cs)"
    using DecodeRune_length [of "c # cs" bs r] by simp
  then show "(r, c # cs) \<in> measure length" by simp
qed auto

definition unquote :: "string \<Rightarrow> string option" where
  "unquote s =
     (if length s < 2 \<or> hd s \<noteq> CHR 0x22 \<or> last s \<noteq> CHR 0x22 then None
      else unquoteBody (butlast (tl s)))"

subsection \<open>Numbers\<close>

definition digits :: "string \<Rightarrow> int" where
  "digits ds = foldl (\<lambda>n c. n * 10 + (int (byte c) - 48)) 0 ds"

definition ParseInt :: "string \<Rightarrow> int option" where
  \<comment> \<open>\<open>strconv.ParseInt(s, 10, 64)\<close>: \<open>None\<close> is a syntax or a range error\<close>
  "ParseInt s =
     (let neg = (s \<noteq> [] \<and> hd s = CHR ''-'');
          ds = (if s \<noteq> [] \<and> (hd s = CHR ''-'' \<or> hd s = CHR ''+'') then tl s else s)
      in if ds = [] \<or> \<not> list_all isDigit ds then None
         else if neg then
           (if digits ds \<le> 2 ^ 63 then Some (- digits ds) else None)
         else
           (if digits ds < 2 ^ 63 then Some (digits ds) else None))"

text \<open>
  \<open>strconv.ParseFloat(s, 64)\<close> on a number of the JSON grammar reports a range error
  when the value is more than half a unit in the last place beyond the largest
  \<open>float64\<close>, that is, when its magnitude is at least \<open>2^1024 - 2^970\<close>. With
  \<open>m\<close> the digits before the exponent, \<open>f\<close> the number of digits after the point
  and \<open>e\<close> the exponent, the magnitude is \<open>m * 10^(e - f)\<close>.
\<close>

definition floatRangeError :: "string \<Rightarrow> bool" where
  "floatRangeError s =
     (let t = (if s \<noteq> [] \<and> hd s = CHR ''-'' then tl s else s);
          mant = takeWhile (\<lambda>c. c \<noteq> CHR ''e'' \<and> c \<noteq> CHR ''E'') t;
          ex = drop (Suc (length mant)) t;
          ip = takeWhile (\<lambda>c. c \<noteq> CHR ''.'') mant;
          fp = drop (Suc (length ip)) mant;
          m = digits (ip @ fp);
          eneg = (ex \<noteq> [] \<and> hd ex = CHR ''-'');
          eds = (if ex \<noteq> [] \<and> (hd ex = CHR ''-'' \<or> hd ex = CHR ''+'') then tl ex else ex);
          e = (if eneg then - digits eds else digits eds) - int (length fp);
          limit = (2::int) ^ 1024 - 2 ^ 970
      in if 0 \<le> e then m * 10 ^ nat e \<ge> limit
         else m \<ge> limit * 10 ^ nat (- e))"

subsection \<open>Field names\<close>

text \<open>
  A key matches a field when it is the field's name or equal to it under Unicode simple
  case folding. The names here are ASCII lower-case letters, so a key matches when
  \<open>foldName\<close> of it is the name: an ASCII capital folds to its small letter, and
  U+017F (long s) and U+212A (Kelvin sign), the only other code points that fold to an
  ASCII letter, fold to s and k.
\<close>

fun foldName :: "string \<Rightarrow> string" where
  "foldName [] = []"
| "foldName (c # cs) =
     (if 65 \<le> byte c \<and> byte c \<le> 90 then char_of (byte c + 32) # foldName cs
      else if c = CHR 0xC5 \<and> cs \<noteq> [] \<and> hd cs = CHR 0xBF then CHR ''s'' # foldName (tl cs)
      else if c = CHR 0xE2 \<and> take 2 cs = [CHR 0x84, CHR 0xAA] then CHR ''k'' # foldName (drop 2 cs)
      else c # foldName cs)"

definition field :: "string \<Rightarrow> string" where
  \<comment> \<open>the folded name of a key as it stands in the input (a string literal); a key that
      does not unquote matches no field\<close>
  "field key = (case unquote key of None \<Rightarrow> [] | Some k \<Rightarrow> foldName k)"

subsection \<open>Storing a value\<close>

text \<open>
  Each function takes the value in the input and the current content of the target and
  gives the new content and whether an \<open>UnmarshalTypeError\<close> was saved. The decoder goes
  on after such an error; \<open>Unmarshal\<close> returns the first one at the end. A JSON null
  leaves an int, a string and a struct as they are. An \<open>int\<close> has 64 bits. A string
  literal that does not unquote is a saved error here; the decoder of the library panics
  on it, having checked the input before.
\<close>

definition storeInt :: "jvalue \<Rightarrow> int \<Rightarrow> int \<times> bool" where
  "storeInt v old =
     (case v of
        Literal item \<Rightarrow>
          (case item of
             [] \<Rightarrow> (old, True)
           | c # _ \<Rightarrow>
               if c = CHR ''n'' then (old, False)
               else if c = CHR ''t'' \<or> c = CHR ''f'' \<or> c = CHR 0x22 then (old, True)
               else (case ParseInt item of Some n \<Rightarrow> (n, False) | None \<Rightarrow> (old, True)))
      | Array _ _ \<Rightarrow> (old, True)
      | Object _ _ \<Rightarrow> (old, True))"

definition storeString :: "jvalue \<Rightarrow> string \<Rightarrow> string \<times> bool" where
  "storeString v old =
     (case v of
        Literal item \<Rightarrow>
          (case item of
             [] \<Rightarrow> (old, True)
           | c # _ \<Rightarrow>
               if c = CHR ''n'' then (old, False)
               else if c = CHR 0x22 then
                 (case unquote item of Some s \<Rightarrow> (s, False) | None \<Rightarrow> (old, True))
               else (old, True))
      | Array _ _ \<Rightarrow> (old, True)
      | Object _ _ \<Rightarrow> (old, True))"

text \<open>
  \<open>json.RawMessage\<close> is a byte slice with an \<open>UnmarshalJSON\<close> method that copies the
  text it is given. The decoder hands every value to that method, a literal (null
  included), an array and an object alike, so the field holds the text of the value and is
  not nil afterwards. A nil slice is \<open>None\<close>.
\<close>

definition storeRawMessage :: "jvalue \<Rightarrow> string option \<Rightarrow> string option \<times> bool" where
  "storeRawMessage v old = (Some (raw v), False)"

text \<open>
  A field of type \<open>interface{}\<close> receives the decoded value, and nil for a JSON null. A
  number becomes a \<open>float64\<close>; one out of range is an error of \<open>Unmarshal\<close>, and
  the value stored for it is an infinity, so the field is not nil afterwards. The value
  held is represented by the syntax it was decoded from; nil is \<open>None\<close>.
\<close>

fun numberErrors :: "jvalue \<Rightarrow> bool" where
  "numberErrors (Literal item) =
     (item \<noteq> [] \<and> hd item \<notin> set ''ntf'' \<and> hd item \<noteq> CHR 0x22 \<and> floatRangeError item)"
| "numberErrors (Array _ els) = (\<exists>e \<in> set els. numberErrors e)"
| "numberErrors (Object _ mems) = (\<exists>m \<in> set mems. numberErrors (snd m))"

definition storeInterface :: "jvalue \<Rightarrow> jvalue option \<Rightarrow> jvalue option \<times> bool" where
  "storeInterface v old =
     (case v of
        Literal item \<Rightarrow>
          (case item of
             [] \<Rightarrow> (old, True)
           | c # _ \<Rightarrow>
               if c = CHR ''n'' then (None, False)
               else (Some v, numberErrors v))
      | Array _ _ \<Rightarrow> (Some v, numberErrors v)
      | Object _ _ \<Rightarrow> (Some v, numberErrors v))"

subsection \<open>The targets of \<open>Unmarshal\<close> in the package\<close>

record Error =
  Code :: int
  Message :: string

record ResponseOk =
  ID :: int
  Result :: "string option"

record ResponseError =
  ID :: int
  Error :: Error

text \<open>
  An object is stored into a struct member by member, in the order of the input; a key
  that matches no field is skipped, a key that comes twice is stored twice.
\<close>

fun objectError :: "(string \<times> jvalue) list \<Rightarrow> Error \<times> bool \<Rightarrow> Error \<times> bool" where
  "objectError [] acc = acc"
| "objectError ((key, v) # ms) (e, err) =
     (if field key = ''code'' then
        (case storeInt v (Code e) of (n, b) \<Rightarrow> objectError ms (e\<lparr>Code := n\<rparr>, err \<or> b))
      else if field key = ''message'' then
        (case storeString v (Message e) of
           (m, b) \<Rightarrow> objectError ms (e\<lparr>Message := m\<rparr>, err \<or> b))
      else objectError ms (e, err))"

definition notNull :: "string \<Rightarrow> bool" where
  \<comment> \<open>a literal other than null stored into a struct or a slice is a saved error\<close>
  "notNull item = (item = [] \<or> hd item \<noteq> CHR ''n'')"

definition storeError :: "jvalue \<Rightarrow> Error \<Rightarrow> Error \<times> bool" where
  "storeError v old =
     (case v of
        Literal item \<Rightarrow> (old, notNull item)
      | Array _ _ \<Rightarrow> (old, True)
      | Object _ mems \<Rightarrow> objectError mems (old, False))"

fun objectResponseOk ::
  "(string \<times> jvalue) list \<Rightarrow> ResponseOk \<times> bool \<Rightarrow> ResponseOk \<times> bool" where
  "objectResponseOk [] acc = acc"
| "objectResponseOk ((key, v) # ms) (res, err) =
     (if field key = ''id'' then
        (case storeInt v (ResponseOk.ID res) of
           (n, b) \<Rightarrow> objectResponseOk ms (res\<lparr>ResponseOk.ID := n\<rparr>, err \<or> b))
      else if field key = ''result'' then
        (case storeRawMessage v (Result res) of
           (r, b) \<Rightarrow> objectResponseOk ms (res\<lparr>Result := r\<rparr>, err \<or> b))
      else objectResponseOk ms (res, err))"

definition storeResponseOk :: "jvalue \<Rightarrow> ResponseOk \<Rightarrow> ResponseOk \<times> bool" where
  "storeResponseOk v old =
     (case v of
        Literal item \<Rightarrow> (old, notNull item)
      | Array _ _ \<Rightarrow> (old, True)
      | Object _ mems \<Rightarrow> objectResponseOk mems (old, False))"

fun objectResponseError ::
  "(string \<times> jvalue) list \<Rightarrow> ResponseError \<times> bool \<Rightarrow> ResponseError \<times> bool" where
  "objectResponseError [] acc = acc"
| "objectResponseError ((key, v) # ms) (res, err) =
     (if field key = ''id'' then
        (case storeInt v (ResponseError.ID res) of
           (n, b) \<Rightarrow> objectResponseError ms (res\<lparr>ResponseError.ID := n\<rparr>, err \<or> b))
      else if field key = ''error'' then
        (case storeError v (Error res) of
           (e, b) \<Rightarrow> objectResponseError ms (res\<lparr>Error := e\<rparr>, err \<or> b))
      else objectResponseError ms (res, err))"

definition storeResponseError :: "jvalue \<Rightarrow> ResponseError \<Rightarrow> ResponseError \<times> bool" where
  "storeResponseError v old =
     (case v of
        Literal item \<Rightarrow> (old, notNull item)
      | Array _ _ \<Rightarrow> (old, True)
      | Object _ mems \<Rightarrow> objectResponseError mems (old, False))"

text \<open>
  \<open>json.Unmarshal(data, &v)\<close>: the content of \<open>v\<close> afterwards, and whether the error
  returned is not nil. Input that is not valid JSON leaves \<open>v\<close> as it was.
\<close>

definition Unmarshal_ResponseOk :: "string \<Rightarrow> ResponseOk \<Rightarrow> ResponseOk \<times> bool" where
  "Unmarshal_ResponseOk data v =
     (case checkValid data of None \<Rightarrow> (v, True) | Some j \<Rightarrow> storeResponseOk j v)"

definition Unmarshal_ResponseError :: "string \<Rightarrow> ResponseError \<Rightarrow> ResponseError \<times> bool" where
  "Unmarshal_ResponseError data v =
     (case checkValid data of None \<Rightarrow> (v, True) | Some j \<Rightarrow> storeResponseError j v)"

text \<open>
  The target of \<open>GetProp\<close> is an empty slice of strings: an array gives one string per
  element (the empty string for an element that is null or not a string, the latter with
  a saved error), null gives the nil slice, anything else leaves the slice empty.
\<close>

definition storeStrings :: "jvalue \<Rightarrow> string list \<times> bool" where
  "storeStrings v =
     (case v of
        Literal item \<Rightarrow> ([], notNull item)
      | Array _ els \<Rightarrow>
          (map (\<lambda>e. fst (storeString e [])) els, \<exists>e \<in> set els. snd (storeString e []))
      | Object _ _ \<Rightarrow> ([], True))"

definition Unmarshal_strings :: "string \<Rightarrow> string list \<times> bool" where
  "Unmarshal_strings data =
     (case checkValid data of None \<Rightarrow> ([], True) | Some j \<Rightarrow> storeStrings j)"

section \<open>The package: transport and response decoding (with error results)\<close>

text \<open>
  An \<open>error\<close> is known by its dynamic type and its message: \<open>errorString\<close> is what
  \<open>errors.New\<close> makes, \<open>netError\<close> stands for whatever \<open>net.DialTimeout\<close> and the
  reader return.
\<close>

datatype error = errorString string | netError string

record Yeelight =
  host :: string
  port :: string

text \<open>
  The network is the environment of a call: whether the connection to an address is
  established, and what \<open>ReadString\<close> yields after the given bytes were written (a line,
  or an error such as a timeout or the end of the stream). A call leaves a trace of what
  it did to the network and to the standard output.
\<close>

record network =
  DialTimeout :: "string \<Rightarrow> error option"
  ReadString :: "string \<Rightarrow> error + string"

datatype event =
    Dial string bool
  | SetReadDeadline
  | Write string
  | Read
  | Close
  | Println string

definition response :: "string \<Rightarrow> error + string" where
  "response data =
     (let res = fst (Unmarshal_ResponseOk data \<lparr>ResponseOk.ID = 0, Result = None\<rparr>) in
      case Result res of
        None \<Rightarrow>
          (let res' = fst (Unmarshal_ResponseError data
                             \<lparr>ResponseError.ID = 0, Error = \<lparr>Code = 0, Message = []\<rparr>\<rparr>)
           in Inl (errorString (Message (Error res'))))
      | Some r \<Rightarrow> Inr r)"

definition request :: "network \<Rightarrow> Yeelight \<Rightarrow> string \<Rightarrow> (error + string) \<times> event list" where
  "request net y cmd =
     (let addr = host y @ '':'' @ port y in
      case DialTimeout net addr of
        Some err \<Rightarrow> (Inl err, [Dial addr False])
      | None \<Rightarrow>
          (let sent = Fprintf (cmd @ CRLF);
               trace = [Dial addr True, SetReadDeadline, Write sent, Read, Close]
           in case ReadString net sent of
                Inl err \<Rightarrow> (Inl err, trace)
              | Inr data \<Rightarrow> (response data, trace)))"

definition New :: "string \<Rightarrow> string \<Rightarrow> Yeelight" where
  "New h p = \<lparr>host = h, port = p\<rparr>"

section \<open>The package: the command methods (with error results)\<close>

text \<open>
  Every method builds the command line \<open>cmd\<close> by concatenation and hands it to
  \<open>request\<close>. The line is the definition with suffix \<open>_cmd\<close>; the method itself gives
  the result of the call and its trace.
\<close>

definition GetProp_cmd :: "string list \<Rightarrow> string" where
  \<open>GetProp_cmd values =
     foldl (\<lambda>cmd v. cmd @ ''"'' @ v @ ''",'')
       ''{"id":1,"method":"get_prop","params":['' values @ '']}''\<close>

definition GetProp ::
  "network \<Rightarrow> Yeelight \<Rightarrow> string list \<Rightarrow> (error + (string \<rightharpoonup> string)) \<times> event list" where
  "GetProp net y values =
     (case request net y (GetProp_cmd values) of
        (Inl err, trace) \<Rightarrow> (Inl err, trace)
      | (Inr res, trace) \<Rightarrow>
          (let props = fst (Unmarshal_strings res) in
           if length props \<noteq> length values
           then (Inl (errorString ''Wrong response''), trace)
           else (Inr (foldl (\<lambda>m (i, prop). m(values ! i \<mapsto> prop)) Map.empty
                        (enumerate 0 props)),
                 trace)))"

definition SetCtAbx_cmd :: "string \<Rightarrow> string \<Rightarrow> string \<Rightarrow> string" where
  \<open>SetCtAbx_cmd val effect duration =
     ''{"id":2,"method":"set_ct_abx","params":['' @ val @ '',"'' @ effect @ ''",'' @ duration @ '']}''\<close>

definition SetCtAbx :: "network \<Rightarrow> Yeelight \<Rightarrow> string \<Rightarrow> string \<Rightarrow> string \<Rightarrow> (error + string) \<times> event list" where
  "SetCtAbx net y val effect duration = request net y (SetCtAbx_cmd val effect duration)"

definition SetRGB_cmd :: "string \<Rightarrow> string \<Rightarrow> string \<Rightarrow> string" where
  \<open>SetRGB_cmd val effect duration =
     ''{"id":3,"method":"set_rgb","params":['' @ val @ '',"'' @ effect @ ''",'' @ duration @ '']}''\<close>

definition SetRGB :: "network \<Rightarrow> Yeelight \<Rightarrow> string \<Rightarrow> string \<Rightarrow> string \<Rightarrow> (error + string) \<times> event list" where
  "SetRGB net y val effect duration = request net y (SetRGB_cmd val effect duration)"

definition SetHSV_cmd :: "string \<Rightarrow> string \<Rightarrow> string \<Rightarrow> string \<Rightarrow> string" where
  \<open>SetHSV_cmd hue sat effect duration =
     ''{"id":4,"method":"set_hsv","params":['' @ hue @ '','' @ sat @ '',"'' @ effect @ ''",'' @ duration @ '']}''\<close>

definition SetHSV :: "network \<Rightarrow> Yeelight \<Rightarrow> string \<Rightarrow> string \<Rightarrow> string \<Rightarrow> string \<Rightarrow> (error + string) \<times> event list" where
  "SetHSV net y hue sat effect duration = request net y (SetHSV_cmd hue sat effect duration)"

definition SetBright_cmd :: "string \<Rightarrow> string \<Rightarrow> string \<Rightarrow> string" where
  \<open>SetBright_cmd brightness effect duration =
     ''{"id":5,"method":"set_bright","params":['' @ brightness @ '',"'' @ effect @ ''",'' @ duration @ '']}''\<close>

definition SetBright :: "network \<Rightarrow> Yeelight \<Rightarrow> string \<Rightarrow> string \<Rightarrow> string \<Rightarrow> (error + string) \<times> event list" where
  "SetBright net y brightness effect duration = request net y (SetBright_cmd brightness effect duration)"

definition SetPower_cmd :: "string \<Rightarrow> string \<Rightarrow> string \<Rightarrow> string" where
  \<open>SetPower_cmd pwr effect duration =
     ''{"id":6,"method":"set_power","params":["'' @ pwr @ ''","'' @ effect @ ''",'' @ duration @ '']}''\<close>

definition SetPower :: "network \<Rightarrow> Yeelight \<Rightarrow> string \<Rightarrow> string \<Rightarrow> string \<Rightarrow> (error + string) \<times> event list" where
  "SetPower net y pwr effect duration = request net y (SetPower_cmd pwr effect duration)"

definition Toogle_cmd :: string where
  \<open>Toogle_cmd =
     ''{"id":7,"method":"toggle","params":[]}''\<close>

definition Toogle :: "network \<Rightarrow> Yeelight \<Rightarrow> (error + string) \<times> event list" where
  "Toogle net y = request net y Toogle_cmd"

definition SetDefault_cmd :: string where
  \<open>SetDefault_cmd =
     ''{"id":8,"method":"set_default","params":[]}''\<close>

definition SetDefault :: "network \<Rightarrow> Yeelight \<Rightarrow> (error + string) \<times> event list" where
  "SetDefault net y = request net y SetDefault_cmd"

definition StartCf_cmd :: "string \<Rightarrow> string \<Rightarrow> string \<Rightarrow> string" where
  \<open>StartCf_cmd cnt action flowExpression =
     ''{"id":9,"method":"start_cf","params":['' @ cnt @ '','' @ action @ '',"'' @ flowExpression @ ''"]}''\<close>

definition StartCf :: "network \<Rightarrow> Yeelight \<Rightarrow> string \<Rightarrow> string \<Rightarrow> string \<Rightarrow> (error + string) \<times> event list" where
  "StartCf net y cnt action flowExpression = request net y (StartCf_cmd cnt action flowExpression)"

definition StopCf_cmd :: string where
  \<open>StopCf_cmd =
     ''{"id":10,"method":"stop_cf","params":[]}''\<close>

definition StopCf :: "network \<Rightarrow> Yeelight \<Rightarrow> (error + string) \<times> event list" where
  "StopCf net y = request net y StopCf_cmd"

definition SetScene_cmd :: "string \<Rightarrow> string \<Rightarrow> string" where
  \<open>SetScene_cmd cls vals =
     ''{"id":11,"method":"set_scene","params":["'' @ cls @ ''",'' @ vals @ '']}''\<close>

definition SetScene :: "network \<Rightarrow> Yeelight \<Rightarrow> string \<Rightarrow> string \<Rightarrow> (error + string) \<times> event list" where
  \<comment> \<open>the method prints the command line before it sends it\<close>
  "SetScene net y cls vals =
     (case request net y (SetScene_cmd cls vals) of
        (r, trace) \<Rightarrow> (r, Println (SetScene_cmd cls vals) # trace))"

definition CronAdd_cmd :: "string \<Rightarrow> string \<Rightarrow> string" where
  \<open>CronAdd_cmd t val =
     ''{"id":12,"method":"cron_add","params":['' @ t @ '','' @ val @ '']}''\<close>

definition CronAdd :: "network \<Rightarrow> Yeelight \<Rightarrow> string \<Rightarrow> string \<Rightarrow> (error + string) \<times> event list" where
  "CronAdd net y t val = request net y (CronAdd_cmd t val)"

definition CronGet_cmd :: "string \<Rightarrow> string" where
  \<open>CronGet_cmd t =
     ''{"id":13,"method":"cron_get","params":['' @ t @ '']}''\<close>

definition CronGet :: "network \<Rightarrow> Yeelight \<Rightarrow> string \<Rightarrow> (error + string) \<times> event list" where
  "CronGet net y t = request net y (CronGet_cmd t)"

definition CronDel_cmd :: "string \<Rightarrow> string" where
  \<open>CronDel_cmd t =
     ''{"id":14,"method":"cron_del","params":['' @ t @ '']}''\<close>

definition CronDel :: "network \<Rightarrow> Yeelight \<Rightarrow> string \<Rightarrow> (error + string) \<times> event list" where
  "CronDel net y t = request net y (CronDel_cmd t)"

definition SetAdjust_cmd :: "string \<Rightarrow> string \<Rightarrow> string" where
  \<open>SetAdjust_cmd action prop =
     ''{"id":15,"method":"set_adjust","params":["'' @ action @ ''","'' @ prop @ ''"]}''\<close>

definition SetAdjust :: "network \<Rightarrow> Yeelight \<Rightarrow> string \<Rightarrow> string \<Rightarrow> (error + string) \<times> event list" where
  "SetAdjust net y action prop = request net y (SetAdjust_cmd action prop)"

definition SetName_cmd :: "string \<Rightarrow> string" where
  \<open>SetName_cmd name =
     ''{"id":16,"method":"set_name","params":["'' @ name @ ''"]}''\<close>

definition SetName :: "network \<Rightarrow> Yeelight \<Rightarrow> string \<Rightarrow> (error + string) \<times> event list" where
  "SetName net y name = request net y (SetName_cmd name)"

definition On :: "network \<Rightarrow> Yeelight \<Rightarrow> (error + string) \<times> event list" where
  "On net y = SetPower net y ''on'' ''smooth'' ''1000''"

definition Off :: "network \<Rightarrow> Yeelight \<Rightarrow> (error + string) \<times> event list" where
  "Off net y = SetPower net y ''off'' ''smooth'' ''1000''"

section \<open>The package in \<open>goyeelight.go\<close>: every method returns a string\<close>

text \<open>
  In this file of the repository a method returns one string, the JSON text of a
  \<open>Result\<close> with a status and the data: the error's message when the transport fails,
  the decoded error response, or the decoded success response. The \<open>result\<close> field of a
  success response is an \<open>interface{}\<close>. The names of this file carry the suffix
  \<open>_goyeelight\<close>. \<open>json.Marshal\<close> is a parameter of the model: it gives the text for a
  \<open>Result\<close> (the empty string where \<open>Marshal\<close> fails, since the error is dropped).
\<close>

record ResponseOk_goyeelight =
  Id :: int
  Result :: "jvalue option"

record ResponseError_goyeelight =
  Id :: int
  Error :: Error

datatype Data_goyeelight =
    DataString string
  | DataResponseOk ResponseOk_goyeelight
  | DataResponseError ResponseError_goyeelight

record Result_goyeelight =
  Status :: bool
  Data :: Data_goyeelight

fun objectResponseOk_goyeelight ::
  "(string \<times> jvalue) list \<Rightarrow> ResponseOk_goyeelight \<times> bool \<Rightarrow> ResponseOk_goyeelight \<times> bool" where
  "objectResponseOk_goyeelight [] acc = acc"
| "objectResponseOk_goyeelight ((key, v) # ms) (res, err) =
     (if field key = ''id'' then
        (case storeInt v (ResponseOk_goyeelight.Id res) of
           (n, b) \<Rightarrow>
             objectResponseOk_goyeelight ms (res\<lparr>ResponseOk_goyeelight.Id := n\<rparr>, err \<or> b))
      else if field key = ''result'' then
        (case storeInterface v (ResponseOk_goyeelight.Result res) of
           (r, b) \<Rightarrow>
             objectResponseOk_goyeelight ms (res\<lparr>ResponseOk_goyeelight.Result := r\<rparr>, err \<or> b))
      else objectResponseOk_goyeelight ms (res, err))"

definition Unmarshal_ResponseOk_goyeelight ::
  "string \<Rightarrow> ResponseOk_goyeelight \<Rightarrow> ResponseOk_goyeelight \<times> bool" where
  "Unmarshal_ResponseOk_goyeelight data v =
     (case checkValid data of
        None \<Rightarrow> (v, True)
      | Some (Literal item) \<Rightarrow> (v, notNull item)
      | Some (Array _ _) \<Rightarrow> (v, True)
      | Some (Object _ mems) \<Rightarrow> objectResponseOk_goyeelight mems (v, False))"

fun objectResponseError_goyeelight ::
  "(string \<times> jvalue) list \<Rightarrow> ResponseError_goyeelight \<times> bool
     \<Rightarrow> ResponseError_goyeelight \<times> bool" where
  "objectResponseError_goyeelight [] acc = acc"
| "objectResponseError_goyeelight ((key, v) # ms) (res, err) =
     (if field key = ''id'' then
        (case storeInt v (ResponseError_goyeelight.Id res) of
           (n, b) \<Rightarrow>
             objectResponseError_goyeelight ms
               (res\<lparr>ResponseError_goyeelight.Id := n\<rparr>, err \<or> b))
      else if field key = ''error'' then
        (case storeError v (ResponseError_goyeelight.Error res) of
           (e, b) \<Rightarrow>
             objectResponseError_goyeelight ms
               (res\<lparr>ResponseError_goyeelight.Error := e\<rparr>, err \<or> b))
      else objectResponseError_goyeelight ms (res, err))"

definition Unmarshal_ResponseError_goyeelight ::
  "string \<Rightarrow> ResponseError_goyeelight \<Rightarrow> ResponseError_goyeelight \<times> bool" where
  "Unmarshal_ResponseError_goyeelight data v =
     (case checkValid data of
        None \<Rightarrow> (v, True)
      | Some (Literal item) \<Rightarrow> (v, notNull item)
      | Some (Array _ _) \<Rightarrow> (v, True)
      | Some (Object _ mems) \<Rightarrow> objectResponseError_goyeelight mems (v, False))"

definition result_goyeelight ::
  "(Result_goyeelight \<Rightarrow> string) \<Rightarrow> bool \<Rightarrow> Data_goyeelight \<Rightarrow> string" where
  "result_goyeelight Marshal status d = Marshal \<lparr>Status = status, Data = d\<rparr>"

definition response_goyeelight :: "(Result_goyeelight \<Rightarrow> string) \<Rightarrow> string \<Rightarrow> string" where
  "response_goyeelight Marshal data =
     (let res = fst (Unmarshal_ResponseOk_goyeelight data
                       \<lparr>ResponseOk_goyeelight.Id = 0, Result = None\<rparr>) in
      case ResponseOk_goyeelight.Result res of
        None \<Rightarrow>
          (let res' = fst (Unmarshal_ResponseError_goyeelight data
                             \<lparr>ResponseError_goyeelight.Id = 0,
                               Error = \<lparr>Code = 0, Message = []\<rparr>\<rparr>)
           in result_goyeelight Marshal False (DataResponseError res'))
      | Some r \<Rightarrow> result_goyeelight Marshal True (DataResponseOk res))"

fun Error_method :: "error \<Rightarrow> string" where
  \<comment> \<open>\<open>err.Error()\<close>\<close>
  "Error_method (errorString m) = m"
| "Error_method (netError m) = m"

definition request_goyeelight ::
  "(Result_goyeelight \<Rightarrow> string) \<Rightarrow> network \<Rightarrow> Yeelight \<Rightarrow> string \<Rightarrow> string \<times> event list" where
  "request_goyeelight Marshal net y cmd =
     (let addr = host y @ '':'' @ port y in
      case DialTimeout net addr of
        Some err \<Rightarrow>
          (result_goyeelight Marshal False (DataString (Error_method err)), [Dial addr False])
      | None \<Rightarrow>
          (let sent = Fprintf (cmd @ CRLF);
               trace = [Dial addr True, SetReadDeadline, Write sent, Read, Close]
           in case ReadString net sent of
                Inl err \<Rightarrow>
                  (result_goyeelight Marshal False (DataString (Error_method err)), trace)
              | Inr data \<Rightarrow> (response_goyeelight Marshal data, trace)))"

definition GetProp_cmd_goyeelight :: "string \<Rightarrow> string" where
  \<open>GetProp_cmd_goyeelight vals =
     ''{"id":1,"method":"get_prop","params":['' @ vals @ '']}''\<close>

definition GetProp_goyeelight ::
  "(Result_goyeelight \<Rightarrow> string) \<Rightarrow> network \<Rightarrow> Yeelight \<Rightarrow> string \<Rightarrow> string \<times> event list" where
  "GetProp_goyeelight Marshal net y vals =
     request_goyeelight Marshal net y (GetProp_cmd_goyeelight vals)"

definition SetCtAbx_cmd_goyeelight :: "string \<Rightarrow> string \<Rightarrow> string \<Rightarrow> string" where
  \<open>SetCtAbx_cmd_goyeelight val effect duration =
     ''{"id":2,"method":"set_ct_abx","params":['' @ val @ '',"'' @ effect @ ''",'' @ duration @ '']}''\<close>

definition SetCtAbx_goyeelight ::
  "(Result_goyeelight \<Rightarrow> string) \<Rightarrow> network \<Rightarrow> Yeelight \<Rightarrow> string \<Rightarrow> string \<Rightarrow> string \<Rightarrow> string \<times> event list" where
  "SetCtAbx_goyeelight Marshal net y val effect duration =
     request_goyeelight Marshal net y (SetCtAbx_cmd_goyeelight val effect duration)"

definition SetRGB_cmd_goyeelight :: "string \<Rightarrow> string \<Rightarrow> string \<Rightarrow> string" where
  \<open>SetRGB_cmd_goyeelight val effect duration =
     ''{"id":3,"method":"set_rgb","params":['' @ val @ '',"'' @ effect @ ''",'' @ duration @ '']}''\<close>

definition SetRGB_goyeelight ::
  "(Result_goyeelight \<Rightarrow> string) \<Rightarrow> network \<Rightarrow> Yeelight \<Rightarrow> string \<Rightarrow> string \<Rightarrow> string \<Rightarrow> string \<times> event list" where
  "SetRGB_goyeelight Marshal net y val effect duration =
     request_goyeelight Marshal net y (SetRGB_cmd_goyeelight val effect duration)"

definition SetHSV_cmd_goyeelight :: "string \<Rightarrow> string \<Rightarrow> string \<Rightarrow> string \<Rightarrow> string" where
  \<open>SetHSV_cmd_goyeelight hue sat effect duration =
     ''{"id":4,"method":"set_hsv","params":['' @ hue @ '','' @ sat @ '',"'' @ effect @ ''",'' @ duration @ '']}''\<close>

definition SetHSV_goyeelight ::
  "(Result_goyeelight \<Rightarrow> string) \<Rightarrow> network \<Rightarrow> Yeelight \<Rightarrow> string \<Rightarrow> string \<Rightarrow> string \<Rightarrow> string \<Rightarrow> string \<times> event list" where
  "SetHSV_goyeelight Marshal net y hue sat effect duration =
     request_goyeelight Marshal net y (SetHSV_cmd_goyeelight hue sat effect duration)"

definition SetBright_cmd_goyeelight :: "string \<Rightarrow> string \<Rightarrow> string \<Rightarrow> string" where
  \<open>SetBright_cmd_goyeelight brightness effect duration =
     ''{"id":5,"method":"set_bright","params":['' @ brightness @ '',"'' @ effect @ ''",'' @ duration @ '']}''\<close>

definition SetBright_goyeelight ::
  "(Result_goyeelight \<Rightarrow> string) \<Rightarrow> network \<Rightarrow> Yeelight \<Rightarrow> string \<Rightarrow> string \<Rightarrow> string \<Rightarrow> string \<times> event list" where
  "SetBright_goyeelight Marshal net y brightness effect duration =
     request_goyeelight Marshal net y (SetBright_cmd_goyeelight brightness effect duration)"

definition SetPower_cmd_goyeelight :: "string \<Rightarrow> string \<Rightarrow> string \<Rightarrow> string" where
  \<open>SetPower_cmd_goyeelight pwr effect duration =
     ''{"id":6,"method":"set_power","params":["'' @ pwr @ ''","'' @ effect @ ''",'' @ duration @ '']}''\<close>

definition SetPower_goyeelight ::
  "(Result_goyeelight \<Rightarrow> string) \<Rightarrow> network \<Rightarrow> Yeelight \<Rightarrow> string \<Rightarrow> string \<Rightarrow> string \<Rightarrow> string \<times> event list" where
  "SetPower_goyeelight Marshal net y pwr effect duration =
     request_goyeelight Marshal net y (SetPower_cmd_goyeelight pwr effect duration)"

definition Toogle_cmd_goyeelight :: string where
  \<open>Toogle_cmd_goyeelight =
     ''{"id":7,"method":"toggle","params":[]}''\<close>

definition Toogle_goyeelight ::
  "(Result_goyeelight \<Rightarrow> string) \<Rightarrow> network \<Rightarrow> Yeelight \<Rightarrow> string \<times> event list" where
  "Toogle_goyeelight Marshal net y =
     request_goyeelight Marshal net y Toogle_cmd_goyeelight"

definition SetDefault_cmd_goyeelight :: string where
  \<open>SetDefault_cmd_goyeelight =
     ''{"id":8,"method":"set_default","params":[]}''\<close>

definition SetDefault_goyeelight ::
  "(Result_goyeelight \<Rightarrow> string) \<Rightarrow> network \<Rightarrow> Yeelight \<Rightarrow> string \<times> event list" where
  "SetDefault_goyeelight Marshal net y =
     request_goyeelight Marshal net y SetDefault_cmd_goyeelight"

definition StartCf_cmd_goyeelight :: "string \<Rightarrow> string \<Rightarrow> string \<Rightarrow> string" where
  \<open>StartCf_cmd_goyeelight cnt action flowExpression =
     ''{"id":9,"method":"start_cf","params":['' @ cnt @ '','' @ action @ '',"'' @ flowExpression @ ''"]}''\<close>

definition StartCf_goyeelight ::
  "(Result_goyeelight \<Rightarrow> string) \<Rightarrow> network \<Rightarrow> Yeelight \<Rightarrow> string \<Rightarrow> string \<Rightarrow> string \<Rightarrow> string \<times> event list" where
  "StartCf_goyeelight Marshal net y cnt action flowExpression =
     request_goyeelight Marshal net y (StartCf_cmd_goyeelight cnt action flowExpression)"

definition StopCf_cmd_goyeelight :: string where
  \<open>StopCf_cmd_goyeelight =
     ''{"id":10,"method":"stop_cf","params":[]}''\<close>

definition StopCf_goyeelight ::
  "(Result_goyeelight \<Rightarrow> string) \<Rightarrow> network \<Rightarrow> Yeelight \<Rightarrow> string \<times> event list" where
  "StopCf_goyeelight Marshal net y =
     request_goyeelight Marshal net y StopCf_cmd_goyeelight"

definition SetScene_cmd_goyeelight :: "string \<Rightarrow> string \<Rightarrow> string \<Rightarrow> string" where
  \<open>SetScene_cmd_goyeelight cls val1 val2 =
     ''{"id":11,"method":"set_scene","params":["'' @ cls @ ''",'' @ val1 @ '','' @ val2 @ '']}''\<close>

definition SetScene_goyeelight ::
  "(Result_goyeelight \<Rightarrow> string) \<Rightarrow> network \<Rightarrow> Yeelight \<Rightarrow> string \<Rightarrow> string \<Rightarrow> string \<Rightarrow> string \<times> event list" where
  "SetScene_goyeelight Marshal net y cls val1 val2 =
     request_goyeelight Marshal net y (SetScene_cmd_goyeelight cls val1 val2)"

definition CronAdd_cmd_goyeelight :: "string \<Rightarrow> string \<Rightarrow> string" where
  \<open>CronAdd_cmd_goyeelight t val =
     ''{"id":12,"method":"cron_add","params":['' @ t @ '','' @ val @ '']}''\<close>

definition CronAdd_goyeelight ::
  "(Result_goyeelight \<Rightarrow> string) \<Rightarrow> network \<Rightarrow> Yeelight \<Rightarrow> string \<Rightarrow> string \<Rightarrow> string \<times> event list" where
  "CronAdd_goyeelight Marshal net y t val =
     request_goyeelight Marshal net y (CronAdd_cmd_goyeelight t val)"

definition CronGet_cmd_goyeelight :: "string \<Rightarrow> string" where
  \<open>CronGet_cmd_goyeelight t =
     ''{"id":13,"method":"cron_get","params":['' @ t @ '']}''\<close>

definition CronGet_goyeelight ::
  "(Result_goyeelight \<Rightarrow> string) \<Rightarrow> network \<Rightarrow> Yeelight \<Rightarrow> string \<Rightarrow> string \<times> event list" where
  "CronGet_goyeelight Marshal net y t =
     request_goyeelight Marshal net y (CronGet_cmd_goyeelight t)"

definition CronDel_cmd_goyeelight :: "string \<Rightarrow> string" where
  \<open>CronDel_cmd_goyeelight t =
     ''{"id":14,"method":"cron_del","params":['' @ t @ '']}''\<close>

definition CronDel_goyeelight ::
  "(Result_goyeelight \<Rightarrow> string) \<Rightarrow> network \<Rightarrow> Yeelight \<Rightarrow> string \<Rightarrow> string \<times> event list" where
  "CronDel_goyeelight Marshal net y t =
     request_goyeelight Marshal net y (CronDel_cmd_goyeelight t)"

definition SetAdjust_cmd_goyeelight :: "string \<Rightarrow> string \<Rightarrow> string" where
  \<open>SetAdjust_cmd_goyeelight action prop =
     ''{"id":15,"method":"set_adjust","params":["'' @ action @ ''","'' @ prop @ '']}''\<close>

definition SetAdjust_goyeelight ::
  "(Result_goyeelight \<Rightarrow> string) \<Rightarrow> network \<Rightarrow> Yeelight \<Rightarrow> string \<Rightarrow> string \<Rightarrow> string \<times> event list" where
  "SetAdjust_goyeelight Marshal net y action prop =
     request_goyeelight Marshal net y (SetAdjust_cmd_goyeelight action prop)"

definition SetName_cmd_goyeelight :: "string \<Rightarrow> string" where
  \<open>SetName_cmd_goyeelight name =
     ''{"id":16,"method":"set_name","params":["'' @ name @ ''"]}''\<close>

definition SetName_goyeelight ::
  "(Result_goyeelight \<Rightarrow> string) \<Rightarrow> network \<Rightarrow> Yeelight \<Rightarrow> string \<Rightarrow> string \<times> event list" where
  "SetName_goyeelight Marshal net y name =
     request_goyeelight Marshal net y (SetName_cmd_goyeelight name)"

definition On_goyeelight ::
  "(Result_goyeelight \<Rightarrow> string) \<Rightarrow> network \<Rightarrow> Yeelight \<Rightarrow> string \<times> event list" where
  "On_goyeelight Marshal net y = SetPower_goyeelight Marshal net y ''on'' ''smooth'' ''1000''"

definition Off_goyeelight ::
  "(Result_goyeelight \<Rightarrow> string) \<Rightarrow> network \<Rightarrow> Yeelight \<Rightarrow> string \<times> event list" where
  "Off_goyeelight Marshal net y = SetPower_goyeelight Marshal net y ''off'' ''smooth'' ''1000''"

section \<open>Reading a trace\<close>

text \<open>
  What a trace says about the connection: how many dials there were, how many connections
  were opened and closed, and whether one is open at the end.
\<close>

fun dials :: "event list \<Rightarrow> nat" where
  "dials [] = 0"
| "dials (Dial a ok # es) = Suc (dials es)"
| "dials (e # es) = dials es"

fun opened :: "event list \<Rightarrow> nat" where
  "opened [] = 0"
| "opened (Dial a ok # es) = (if ok then Suc (opened es) else opened es)"
| "opened (e # es) = opened es"

fun closed :: "event list \<Rightarrow> nat" where
  "closed [] = 0"
| "closed (Close # es) = Suc (closed es)"
| "closed (e # es) = closed es"

fun stillOpen :: "bool \<Rightarrow> event list \<Rightarrow> bool" where
  \<comment> \<open>whether a connection is open after the trace, given whether one was before\<close>
  "stillOpen b [] = b"
| "stillOpen b (Dial a ok # es) = stillOpen (b \<or> ok) es"
| "stillOpen b (Close # es) = stillOpen False es"
| "stillOpen b (e # es) = stillOpen b es"

section \<open>Devices used in examples\<close>

definition device :: "string \<Rightarrow> network" where
  \<comment> \<open>a lamp that accepts every connection and answers every command with one line\<close>
  "device line = \<lparr>DialTimeout = (\<lambda>addr. None), ReadString = (\<lambda>sent. Inr line)\<rparr>"

definition unreachable :: network where
  \<comment> \<open>no lamp: every dial runs into the timeout\<close>
  "unreachable =
     \<lparr>DialTimeout = (\<lambda>addr. Some (netError ''i/o timeout'')),
      ReadString = (\<lambda>sent. Inl (netError ''i/o timeout''))\<rparr>"

definition lamp :: Yeelight where
  "lamp = New ''192.168.0.27'' ''55443''"

text \<open>
  The list of names as the specification writes it: each name in double quotes, a comma
  between two names.
\<close>

fun quotedNames :: "string list \<Rightarrow> string" where
  \<open>quotedNames [] = []\<close>
| \<open>quotedNames [n] = ''"'' @ n @ ''"''\<close>
| \<open>quotedNames (n # ns) = ''"'' @ n @ ''",'' @ quotedNames ns\<close>

section \<open>The command line of \<open>GetProp\<close>\<close>

lemma foldl_append_cmd:
  \<open>foldl (\<lambda>cmd v. cmd @ ''"'' @ v @ ''",'') acc values =
     acc @ concat (map (\<lambda>v. ''"'' @ v @ ''",'') values)\<close>
  by (induction "values" arbitrary: acc) simp_all

lemma concat_quotedNames:
  \<open>values \<noteq> [] \<Longrightarrow>
     concat (map (\<lambda>v. ''"'' @ v @ ''",'') values) = quotedNames values @ '',''\<close>
  by (induction "values" rule: quotedNames.induct) simp_all

text \<open>
  Claim C9. For a non-empty list of names the command line of \<open>GetProp\<close> is the fixed
  head, the quoted names separated by commas, one more comma after the last name, and the
  closing bracket and brace; for the empty list the parameter array is empty.
\<close>

theorem GetProp_cmd_trailing_comma:
  \<open>GetProp_cmd [] = ''{"id":1,"method":"get_prop","params":[]}'' \<and>
   (values \<noteq> [] \<longrightarrow>
      GetProp_cmd values =
        ''{"id":1,"method":"get_prop","params":['' @ quotedNames values @ '',]}'')\<close>
proof -
  have A: \<open>GetProp_cmd values =
      ''{"id":1,"method":"get_prop","params":['' @
        concat (map (\<lambda>v. ''"'' @ v @ ''",'') values) @ '']}''\<close>
    by (simp only: GetProp_cmd_def foldl_append_cmd append_assoc)
  have B: \<open>GetProp_cmd [] = ''{"id":1,"method":"get_prop","params":[]}''\<close>
    by (simp add: GetProp_cmd_def)
  have C: \<open>GetProp_cmd values =
      ''{"id":1,"method":"get_prop","params":['' @ quotedNames values @ '',]}''\<close>
    if "values \<noteq> []"
    by (simp only: A concat_quotedNames [OF that]) simp
  from B C show ?thesis by blast
qed

theorem GetProp_cmd_trailing_comma_witness:
  \<open>[''power'', ''bright''] \<noteq> [] \<and>
   GetProp_cmd [''power'', ''bright''] =
     ''{"id":1,"method":"get_prop","params":["power","bright",]}''\<close>
  using GetProp_cmd_trailing_comma [of "[''power'', ''bright'']"] by simp

section \<open>The power switches\<close>

text \<open>
  Claim C6. \<open>On\<close> is \<open>SetPower\<close> with on, smooth and 1000, and \<open>Off\<close> is \<open>SetPower\<close>
  with off, smooth and 1000, in both files: the same call of \<open>request\<close> with the same
  command line, hence the same result and the same trace.
\<close>

theorem On_Off_are_SetPower:
  \<open>On net y = SetPower net y ''on'' ''smooth'' ''1000'' \<and>
   Off net y = SetPower net y ''off'' ''smooth'' ''1000'' \<and>
   On net y = request net y ''{"id":6,"method":"set_power","params":["on","smooth",1000]}'' \<and>
   Off net y = request net y ''{"id":6,"method":"set_power","params":["off","smooth",1000]}'' \<and>
   On_goyeelight Marshal net y = SetPower_goyeelight Marshal net y ''on'' ''smooth'' ''1000'' \<and>
   Off_goyeelight Marshal net y = SetPower_goyeelight Marshal net y ''off'' ''smooth'' ''1000'' \<and>
   On_goyeelight Marshal net y =
     request_goyeelight Marshal net y
       ''{"id":6,"method":"set_power","params":["on","smooth",1000]}'' \<and>
   Off_goyeelight Marshal net y =
     request_goyeelight Marshal net y
       ''{"id":6,"method":"set_power","params":["off","smooth",1000]}''\<close>
  by (simp add: On_def Off_def SetPower_def SetPower_cmd_def On_goyeelight_def
      Off_goyeelight_def SetPower_goyeelight_def SetPower_cmd_goyeelight_def)

theorem On_Off_are_SetPower_witness:
  \<open>snd (On (device []) lamp) =
     [Dial ''192.168.0.27:55443'' True, SetReadDeadline,
      Write (''{"id":6,"method":"set_power","params":["on","smooth",1000]}'' @ CRLF),
      Read, Close]\<close>
proof -
  have A: \<open>On (device []) lamp =
          request (device []) lamp
            ''{"id":6,"method":"set_power","params":["on","smooth",1000]}''\<close>
    by (rule On_Off_are_SetPower [THEN conjunct2, THEN conjunct2, THEN conjunct1])
  have B: \<open>snd (request (device []) lamp
            ''{"id":6,"method":"set_power","params":["on","smooth",1000]}'') =
     [Dial ''192.168.0.27:55443'' True, SetReadDeadline,
      Write (''{"id":6,"method":"set_power","params":["on","smooth",1000]}'' @ CRLF),
      Read, Close]\<close>
    by code_simp
  show ?thesis unfolding A by (rule B)
qed

section \<open>The connection of a call\<close>

text \<open>
  Claim C8. A call of \<open>request\<close> dials once; it opens one connection when the dial
  succeeds and none otherwise; it closes as many connections as it opened; no connection
  is open when it returns, whether the read failed or not. The same holds in
  \<open>goyeelight.go\<close>.
\<close>

theorem request_closes_connection:
  "dials (snd (request net y cmd)) = 1 \<and>
   opened (snd (request net y cmd)) =
     (if DialTimeout net (host y @ '':'' @ port y) = None then 1 else 0) \<and>
   closed (snd (request net y cmd)) = opened (snd (request net y cmd)) \<and>
   \<not> stillOpen False (snd (request net y cmd)) \<and>
   dials (snd (request_goyeelight Marshal net y cmd)) = 1 \<and>
   opened (snd (request_goyeelight Marshal net y cmd)) =
     (if DialTimeout net (host y @ '':'' @ port y) = None then 1 else 0) \<and>
   closed (snd (request_goyeelight Marshal net y cmd)) =
     opened (snd (request_goyeelight Marshal net y cmd)) \<and>
   \<not> stillOpen False (snd (request_goyeelight Marshal net y cmd))"
  by (simp add: request_def request_goyeelight_def Let_def split: option.splits sum.splits)

theorem request_closes_connection_witness:
  "closed (snd (request (device []) lamp ''{}'')) = 1 \<and>
   \<not> stillOpen False (snd (request (device []) lamp ''{}'')) \<and>
   closed (snd (request unreachable lamp ''{}'')) = 0"
  using request_closes_connection [of "device []" lamp "''{}''" "\<lambda>r. []"]
        request_closes_connection [of unreachable lamp "''{}''" "\<lambda>r. []"]
  by (simp add: device_def unreachable_def)

section \<open>What is written to the socket\<close>

lemma doPrintf_no_percent: "CHR ''%'' \<notin> set s \<Longrightarrow> doPrintf s = s"
  by (induction s) auto

lemma Fprintf_no_percent:
  "CHR ''%'' \<notin> set cmd \<Longrightarrow> Fprintf (cmd @ CRLF) = cmd @ CRLF"
  by (simp add: Fprintf_def doPrintf_no_percent CRLF_def)

text \<open>
  Claim C5. The command is passed to \<open>Fprintf\<close> as the format, so a percent sign in it
  starts a verb. \<open>SetName\<close> with the name 50% builds a command line that ends in a percent
  sign, a double quote, a bracket and a brace; what is written has the text of a missing
  operand in place of the percent sign and the quote.
\<close>

theorem Fprintf_interprets_verbs:
  \<open>SetName_cmd ''50%'' = ''{"id":16,"method":"set_name","params":["50%"]}'' \<and>
   snd (SetName (device []) lamp ''50%'') =
     [Dial ''192.168.0.27:55443'' True, SetReadDeadline,
      Write (''{"id":16,"method":"set_name","params":["50%!"(MISSING)]}'' @ CRLF),
      Read, Close]\<close>
  by code_simp

section \<open>The parameters of \<open>SetAdjust\<close>\<close>

text \<open>
  Claim C7. In \<open>goyeelight.go\<close> the command line of \<open>SetAdjust\<close> has no double quote
  after the second parameter: the line for increase and bright is not JSON. The other file
  closes the quote.
\<close>

theorem SetAdjust_goyeelight_open_quote:
  \<open>SetAdjust_cmd_goyeelight ''increase'' ''bright'' =
     ''{"id":15,"method":"set_adjust","params":["increase","bright]}'' \<and>
   checkValid (SetAdjust_cmd_goyeelight ''increase'' ''bright'') = None \<and>
   SetAdjust_cmd ''increase'' ''bright'' =
     ''{"id":15,"method":"set_adjust","params":["increase","bright"]}''\<close>
  by code_simp

section \<open>Decoding a response line\<close>

lemma objectResponseOk_no_result:
  "\<forall>m \<in> set mems. field (fst m) \<noteq> ''result'' \<Longrightarrow>
   ResponseOk.Result (fst (objectResponseOk mems (res, err))) = ResponseOk.Result res"
  by (induction mems arbitrary: res err) (auto split: prod.splits)

lemma objectResponseOk_result:
  "ResponseOk.Result (fst (objectResponseOk mems (res, err))) =
     (case filter (\<lambda>m. field (fst m) = ''result'') mems of
        [] \<Rightarrow> ResponseOk.Result res
      | m # ms \<Rightarrow> Some (raw (snd (last (m # ms)))))"
proof (induction mems arbitrary: res err)
  case Nil
  then show ?case by simp
next
  case (Cons kv mems)
  obtain key v where kv: "kv = (key, v)" by (cases kv)
  show ?case
  proof (cases "field key = ''result''")
    case True
    then have "field key \<noteq> ''id''" by simp
    with True kv Cons.IH [of "res\<lparr>ResponseOk.Result := Some (raw v)\<rparr>" err]
    show ?thesis
      by (simp add: storeRawMessage_def split: list.splits)
  next
    case False
    with kv Cons.IH show ?thesis
      by (auto split: prod.splits list.splits)
  qed
qed

lemma objectResponseError_no_error:
  "\<forall>m \<in> set mems. field (fst m) \<noteq> ''error'' \<Longrightarrow>
   ResponseError.Error (fst (objectResponseError mems (res, err))) = ResponseError.Error res"
  by (induction mems arbitrary: res err) (auto split: prod.splits)

text \<open>
  A line that is an object with a result member succeeds with the text of the value of
  the last such member, whatever that value is; an object without one fails with the
  message of the error shape.
\<close>

lemma response_result_member:
  assumes "checkValid data = Some (Object r mems)"
    and "filter (\<lambda>m. field (fst m) = ''result'') mems = m # ms"
  shows "response data = Inr (raw (snd (last (m # ms))))"
  using assms
  by (simp add: response_def Unmarshal_ResponseOk_def storeResponseOk_def
        objectResponseOk_result)

lemma response_no_result_member:
  assumes "checkValid data = Some (Object r mems)"
    and "\<forall>m \<in> set mems. field (fst m) \<noteq> ''result''"
  shows "response data =
           Inl (errorString (Message (ResponseError.Error
             (fst (Unmarshal_ResponseError data
                \<lparr>ResponseError.ID = 0,
                  ResponseError.Error = \<lparr>Code = 0, Message = []\<rparr>\<rparr>)))))"
  using assms
  by (simp add: response_def Unmarshal_ResponseOk_def storeResponseOk_def
        objectResponseOk_no_result)

text \<open>
  Claim C2. The two example lines of the claim decode as it says: the success line gives
  the text of the result, the error line fails with the message of the device. A line
  whose result is null is a success with the text null: the field is a
  \<open>json.RawMessage\<close>, which is not nil once a value, null included, was stored in it.
\<close>

theorem response_examples_and_null:
  \<open>response ''{"id":1,"result":["on","100"]}'' = Inr ''["on","100"]'' \<and>
   response ''{"id":1,"error":{"code":-1,"message":"unsupported method"}}'' =
     Inl (errorString ''unsupported method'') \<and>
   response (''{"id":1,"result":null}'' @ CRLF) = Inr ''null''\<close>
  by code_simp

text \<open>
  Claim C4. The line with a null result is decoded as a success by \<open>response\<close>; the
  \<open>response\<close> of \<open>goyeelight.go\<close>, whose field is an \<open>interface{}\<close>, takes the error path
  on the same line.
\<close>

theorem response_null_result_is_success:
  \<open>response ''{"id":1,"result":null}'' = Inr ''null'' \<and>
   response_goyeelight Marshal ''{"id":1,"result":null}'' =
     Marshal \<lparr>Status = False,
              Data = DataResponseError
                \<lparr>ResponseError_goyeelight.Id = 1, Error = \<lparr>Code = 0, Message = []\<rparr>\<rparr>\<rparr>\<close>
  by code_simp

text \<open>
  Claim C3, as stated, fails: the empty line and a well-formed error response of the
  device with an empty message give the same error, the one \<open>errors.New\<close> makes of the
  empty string.
\<close>

theorem malformed_equals_device_error:
  \<open>response [] = Inl (errorString []) \<and>
   response ''{"id":1,"error":{"code":-1,"message":""}}'' = Inl (errorString [])\<close>
  by code_simp

text \<open>
  A key is matched to a field as \<open>encoding/json\<close> does it, by \<open>field\<close>: exactly or
  under case folding. So a key written in capitals is a result or an error member too.
\<close>

lemma response_key_folding:
  \<open>response ''{"id":1,"RESULT":["on"]}'' = Inr ''["on"]'' \<and>
   response ''{"ID":1,"ERROR":{"CODE":-1,"Message":"boom"}}'' = Inl (errorString ''boom'')\<close>
  by code_simp

lemma device_error_empty_message:
  \<open>response ''{"id":1,"error":{"code":-1,"message":""}}'' = Inl (errorString [])\<close>
  by code_simp

text \<open>
  Claim C3, amended. A line that is not valid JSON, or whose top-level value is not an
  object, or is an object of which no key matches the field name result or the field name
  error (a key matches a name when it is the name or equal to it under case folding, as
  \<open>field\<close> computes it), is never a success: decoding fails with the error whose message
  is the empty string, which is also the error for a well-formed error response of the
  device with an empty message.
\<close>

theorem response_malformed:
  assumes "checkValid data = None \<or>
           (\<exists>item. checkValid data = Some (Literal item)) \<or>
           (\<exists>r els. checkValid data = Some (Array r els)) \<or>
           (\<exists>r mems. checkValid data = Some (Object r mems) \<and>
              (\<forall>m \<in> set mems. field (fst m) \<noteq> ''result'' \<and> field (fst m) \<noteq> ''error''))"
  shows \<open>response data = Inl (errorString []) \<and>
         response data = response ''{"id":1,"error":{"code":-1,"message":""}}''\<close>
proof -
  have A: "response data = Inl (errorString [])"
    using assms
    by (auto simp: response_def Unmarshal_ResponseOk_def Unmarshal_ResponseError_def
          storeResponseOk_def storeResponseError_def objectResponseOk_no_result
          objectResponseError_no_error)
  have B: \<open>response data = response ''{"id":1,"error":{"code":-1,"message":""}}''\<close>
    by (simp only: A device_error_empty_message)
  from A B show ?thesis by (intro conjI)
qed

lemma checkValid_empty: \<open>checkValid [] = None\<close>
  by code_simp

lemma checkValid_truncated: \<open>checkValid ''{"id":1,"resu'' = None\<close>
  by code_simp

lemma checkValid_number: \<open>checkValid ''12'' = Some (Literal ''12'')\<close>
  by code_simp

lemma checkValid_array:
  \<open>checkValid ''[1,2]'' = Some (Array ''[1,2]'' [Literal ''1'', Literal ''2''])\<close>
  by code_simp

lemma checkValid_other_members:
  \<open>checkValid ''{"id":1,"Method":"props"}'' =
     Some (Object ''{"id":1,"Method":"props"}''
             [(''"id"'', Literal ''1''), (''"Method"'', Literal ''"props"'')])\<close>
  by code_simp

lemma field_other_members:
  \<open>field ''"id"'' = ''id'' \<and> field ''"Method"'' = ''method''\<close>
  by code_simp

theorem response_malformed_witness:
  \<open>response [] = Inl (errorString []) \<and>
   response ''{"id":1,"resu'' = Inl (errorString []) \<and>
   response ''12'' = Inl (errorString []) \<and>
   response ''[1,2]'' = Inl (errorString []) \<and>
   response ''{"id":1,"Method":"props"}'' = Inl (errorString [])\<close>
proof -
  have A: \<open>response [] = Inl (errorString [])\<close>
    by (rule response_malformed [THEN conjunct1]) (simp only: checkValid_empty simp_thms)
  have B: \<open>response ''{"id":1,"resu'' = Inl (errorString [])\<close>
    by (rule response_malformed [THEN conjunct1]) (simp only: checkValid_truncated simp_thms)
  have C: \<open>response ''12'' = Inl (errorString [])\<close>
    by (rule response_malformed [THEN conjunct1]) (simp add: checkValid_number)
  have D: \<open>response ''[1,2]'' = Inl (errorString [])\<close>
    by (rule response_malformed [THEN conjunct1]) (simp add: checkValid_array)
  have E: \<open>response ''{"id":1,"Method":"props"}'' = Inl (errorString [])\<close>
    by (rule response_malformed [THEN conjunct1])
       (simp add: checkValid_other_members field_other_members)
  from A B C D E show ?thesis by (intro conjI)
qed

text \<open>
  Claim C10, as stated, fails: on the line below \<open>Unmarshal\<close> returns an error for the
  success shape and for the error shape (the id is a string), yet the error shape is not
  left at its zero value and the message is not empty.
\<close>

theorem type_error_keeps_message:
  \<open>snd (Unmarshal_ResponseOk ''{"id":"1","error":{"code":-1,"message":"boom"}}''
          \<lparr>ResponseOk.ID = 0, ResponseOk.Result = None\<rparr>) \<and>
   snd (Unmarshal_ResponseError ''{"id":"1","error":{"code":-1,"message":"boom"}}''
          \<lparr>ResponseError.ID = 0, ResponseError.Error = \<lparr>Code = 0, Message = []\<rparr>\<rparr>) \<and>
   response ''{"id":"1","error":{"code":-1,"message":"boom"}}'' = Inl (errorString ''boom'')\<close>
  by code_simp

lemma empty_device_error:
  \<open>response ''{"id":1,"error":{"code":0,"message":""}}'' = Inl (errorString [])\<close>
  by code_simp

text \<open>
  Claim C10, amended. On a line that is not valid JSON both calls of \<open>Unmarshal\<close> return
  an error and store nothing, so the error shape keeps its zero value: decoding fails with
  the error whose message is the empty string, the same error as for a device error with
  an empty message.
\<close>

theorem response_invalid_json:
  assumes "checkValid data = None"
  shows \<open>Unmarshal_ResponseOk data ok = (ok, True) \<and>
         Unmarshal_ResponseError data er = (er, True) \<and>
         response data = Inl (errorString []) \<and>
         response data = response ''{"id":1,"error":{"code":0,"message":""}}''\<close>
proof -
  have A: "Unmarshal_ResponseOk data ok = (ok, True)"
    using assms by (simp add: Unmarshal_ResponseOk_def)
  have B: "Unmarshal_ResponseError data er = (er, True)"
    using assms by (simp add: Unmarshal_ResponseError_def)
  have C: "response data = Inl (errorString [])"
    using assms
    by (simp add: response_def Unmarshal_ResponseOk_def Unmarshal_ResponseError_def)
  have D: \<open>response data = response ''{"id":1,"error":{"code":0,"message":""}}''\<close>
    by (simp only: C empty_device_error)
  from A B C D show ?thesis by (intro conjI)
qed

theorem response_invalid_json_witness:
  \<open>checkValid [] = None \<and> response [] = Inl (errorString []) \<and>
   checkValid ''garbage'' = None \<and> response ''garbage'' = Inl (errorString [])\<close>
proof -
  have E: \<open>checkValid [] = None\<close> by code_simp
  have G: \<open>checkValid ''garbage'' = None\<close> by code_simp
  note R1 = response_invalid_json [OF E, THEN conjunct2, THEN conjunct2, THEN conjunct1]
  note R2 = response_invalid_json [OF G, THEN conjunct2, THEN conjunct2, THEN conjunct1]
  from E R1 G R2 show ?thesis by (intro conjI)
qed

section \<open>The property map of \<open>GetProp\<close>\<close>

lemma enumerate_zip_drop:
  "length props + n \<le> length values \<Longrightarrow>
   foldl (\<lambda>m (i, prop). m(values ! i \<mapsto> prop)) m0 (enumerate n props) =
   foldl (\<lambda>m (k, v). m(k \<mapsto> v)) m0 (zip (drop n values) props)"
proof (induction props arbitrary: n m0)
  case Nil
  then show ?case by simp
next
  case (Cons p ps)
  then have n: "n < length values" by simp
  have "drop n values = values ! n # drop (Suc n) values"
    using n by (simp add: Cons_nth_drop_Suc)
  with Cons show ?case by simp
qed

lemma foldl_upd_other:
  assumes f: "\<And>m k v. f m (k, v) = m(k \<mapsto> v)"
  shows "k \<notin> fst ` set kvs \<Longrightarrow> foldl f m0 kvs k = m0 k"
proof (induction kvs arbitrary: m0)
  case Nil
  then show ?case by simp
next
  case (Cons kv kvs)
  obtain k' v' where kv: "kv = (k', v')" by (cases kv)
  with Cons.prems have ne: "k \<noteq> k'" and notin: "k \<notin> fst ` set kvs" by auto
  have "foldl f m0 (kv # kvs) k = foldl f (m0(k' \<mapsto> v')) kvs k"
    by (simp only: kv foldl_Cons f)
  also have "\<dots> = (m0(k' \<mapsto> v')) k"
    by (rule Cons.IH [OF notin])
  also have "\<dots> = m0 k"
    using ne by simp
  finally show ?case .
qed

lemma foldl_upd_dom:
  assumes f: "\<And>m k v. f m (k, v) = m(k \<mapsto> v)"
  shows "dom (foldl f m0 kvs) = dom m0 \<union> fst ` set kvs"
proof (induction kvs arbitrary: m0)
  case Nil
  then show ?case by simp
next
  case (Cons kv kvs)
  obtain k' v' where kv: "kv = (k', v')" by (cases kv)
  have "dom (foldl f m0 (kv # kvs)) = dom (foldl f (m0(k' \<mapsto> v')) kvs)"
    by (simp only: kv foldl_Cons f)
  also have "\<dots> = dom (m0(k' \<mapsto> v')) \<union> fst ` set kvs"
    by (rule Cons.IH)
  also have "\<dots> = dom m0 \<union> fst ` set (kv # kvs)"
    by (simp add: kv)
  finally show ?case .
qed

lemma foldl_upd_last:
  assumes f: "\<And>m k v. f m (k, v) = m(k \<mapsto> v)"
  shows "length vs = length ps \<Longrightarrow> i < length vs \<Longrightarrow>
   (\<forall>j. i < j \<and> j < length vs \<longrightarrow> vs ! j \<noteq> vs ! i) \<Longrightarrow>
   foldl f m0 (zip vs ps) (vs ! i) = Some (ps ! i)"
proof (induction vs ps arbitrary: i m0 rule: list_induct2)
  case Nil
  then show ?case by simp
next
  case (Cons k vs p ps)
  have step: "foldl f m0 (zip (k # vs) (p # ps)) = foldl f (m0(k \<mapsto> p)) (zip vs ps)"
    by (simp only: zip_Cons_Cons foldl_Cons f)
  show ?case
  proof (cases i)
    case 0
    have "k \<notin> set vs"
    proof
      assume "k \<in> set vs"
      then obtain j where "j < length vs" "vs ! j = k" by (auto simp: in_set_conv_nth)
      with Cons.prems(2) [rule_format, of "Suc j"] 0 show False by simp
    qed
    then have "k \<notin> fst ` set (zip vs ps)"
      by (auto dest: set_zip_leftD)
    then have "foldl f (m0(k \<mapsto> p)) (zip vs ps) k = (m0(k \<mapsto> p)) k"
      by (rule foldl_upd_other [OF f])
    also have "\<dots> = Some p" by simp
    finally have "foldl f m0 (zip (k # vs) (p # ps)) k = Some p"
      by (simp only: step)
    with 0 show ?thesis by simp
  next
    case (Suc i')
    with Cons.prems have i': "i' < length vs" by simp
    have later: "\<forall>j. i' < j \<and> j < length vs \<longrightarrow> vs ! j \<noteq> vs ! i'"
    proof (intro allI impI)
      fix j assume "i' < j \<and> j < length vs"
      with Cons.prems(2) [rule_format, of "Suc j"] Suc show "vs ! j \<noteq> vs ! i'" by simp
    qed
    have "foldl f (m0(k \<mapsto> p)) (zip vs ps) (vs ! i') = Some (ps ! i')"
      by (rule Cons.IH [OF i' later])
    then have "foldl f m0 (zip (k # vs) (p # ps)) (vs ! i') = Some (ps ! i')"
      by (simp only: step)
    with Suc show ?thesis by simp
  qed
qed

text \<open>
  Claim C1, amended. When the call succeeds and its result decodes as a list of strings as
  long as the list of names, \<open>GetProp\<close> returns a map whose keys are the requested names;
  a name is mapped to the value at its position, the last one where the name is requested
  more than once; the map has as many entries as there are names when the names are
  distinct. When the lengths differ, \<open>GetProp\<close> fails with the error made of
  \<open>Wrong response\<close>.
\<close>

theorem GetProp_map:
  assumes "request net y (GetProp_cmd values) = (Inr res, trace)"
    and "fst (Unmarshal_strings res) = props"
  shows "(length props = length values \<longrightarrow>
            (\<exists>m. GetProp net y values = (Inr m, trace) \<and>
                 dom m = set values \<and>
                 (\<forall>i < length values.
                    (\<forall>j. i < j \<and> j < length values \<longrightarrow> values ! j \<noteq> values ! i) \<longrightarrow>
                    m (values ! i) = Some (props ! i)) \<and>
                 (distinct values \<longrightarrow> card (dom m) = length values) \<and>
                 (\<not> distinct values \<longrightarrow> card (dom m) < length values))) \<and>
         (length props \<noteq> length values \<longrightarrow>
            GetProp net y values = (Inl (errorString ''Wrong response''), trace))"
proof (intro conjI impI)
  assume "length props \<noteq> length values"
  with assms show "GetProp net y values = (Inl (errorString ''Wrong response''), trace)"
    by (simp add: GetProp_def)
next
  assume len: "length props = length values"
  define f :: "(string \<rightharpoonup> string) \<Rightarrow> string \<times> string \<Rightarrow> (string \<rightharpoonup> string)"
    where "f = (\<lambda>m (k, v). m(k \<mapsto> v))"
  have f: "\<And>m k v. f m (k, v) = m(k \<mapsto> v)" by (simp add: f_def)
  let ?m = "foldl f Map.empty (zip values props)"
  have "foldl (\<lambda>m (i, prop). m(values ! i \<mapsto> prop)) Map.empty (enumerate 0 props) = ?m"
    unfolding f_def using enumerate_zip_drop [of props 0 "values" Map.empty] len by simp
  with assms len have G: "GetProp net y values = (Inr ?m, trace)"
    by (simp add: GetProp_def)
  have "fst ` set (zip values props) = set values"
    using len by (metis map_fst_zip set_map)
  then have D: "dom ?m = set values"
    by (simp add: foldl_upd_dom [OF f])
  have P: "\<forall>i < length values.
             (\<forall>j. i < j \<and> j < length values \<longrightarrow> values ! j \<noteq> values ! i) \<longrightarrow>
             ?m (values ! i) = Some (props ! i)"
    using len foldl_upd_last [OF f, of "values" props _ Map.empty] by simp
  have C: "distinct values \<longrightarrow> card (dom ?m) = length values"
    by (simp add: D distinct_card)
  have "card (set values) \<le> length values"
    by (rule card_length)
  moreover have "card (set values) = length values \<longrightarrow> distinct values"
    by (simp add: card_distinct)
  ultimately have N: "\<not> distinct values \<longrightarrow> card (dom ?m) < length values"
    unfolding D by linarith
  from G D P C N
  show "\<exists>m. GetProp net y values = (Inr m, trace) \<and>
            dom m = set values \<and>
            (\<forall>i < length values.
               (\<forall>j. i < j \<and> j < length values \<longrightarrow> values ! j \<noteq> values ! i) \<longrightarrow>
               m (values ! i) = Some (props ! i)) \<and>
            (distinct values \<longrightarrow> card (dom m) = length values) \<and>
            (\<not> distinct values \<longrightarrow> card (dom m) < length values)"
    by blast
qed

lemma reply_on_100:
  \<open>request (device (''{"id":1,"result":["on","100"]}'' @ CRLF)) lamp
      (GetProp_cmd [''power'', ''bright'']) =
    (Inr ''["on","100"]'',
     [Dial ''192.168.0.27:55443'' True, SetReadDeadline,
      Write (''{"id":1,"method":"get_prop","params":["power","bright",]}'' @ CRLF),
      Read, Close])\<close>
  by code_simp

lemma strings_on_100: \<open>fst (Unmarshal_strings ''["on","100"]'') = [''on'', ''100'']\<close>
  by code_simp

lemma reply_on:
  \<open>request (device (''{"id":1,"result":["on"]}'' @ CRLF)) lamp
      (GetProp_cmd [''power'', ''bright'']) =
    (Inr ''["on"]'',
     [Dial ''192.168.0.27:55443'' True, SetReadDeadline,
      Write (''{"id":1,"method":"get_prop","params":["power","bright",]}'' @ CRLF),
      Read, Close])\<close>
  by code_simp

lemma strings_on: \<open>fst (Unmarshal_strings ''["on"]'') = [''on'']\<close>
  by code_simp

theorem GetProp_map_witness:
  \<open>(\<exists>m. fst (GetProp (device (''{"id":1,"result":["on","100"]}'' @ CRLF)) lamp
              [''power'', ''bright'']) = Inr m \<and>
        m ''power'' = Some ''on'' \<and> m ''bright'' = Some ''100'' \<and> card (dom m) = 2) \<and>
   fst (GetProp (device (''{"id":1,"result":["on"]}'' @ CRLF)) lamp [''power'', ''bright'']) =
     Inl (errorString ''Wrong response'')\<close>
proof -
  from GetProp_map [OF reply_on strings_on]
  have \<open>GetProp (device (''{"id":1,"result":["on"]}'' @ CRLF)) lamp [''power'', ''bright''] =
     (Inl (errorString ''Wrong response''),
      [Dial ''192.168.0.27:55443'' True, SetReadDeadline,
       Write (''{"id":1,"method":"get_prop","params":["power","bright",]}'' @ CRLF),
       Read, Close])\<close>
    by simp
  then have w: \<open>fst (GetProp (device (''{"id":1,"result":["on"]}'' @ CRLF)) lamp
                     [''power'', ''bright'']) = Inl (errorString ''Wrong response'')\<close>
    by (simp only: fst_conv)
  from GetProp_map [OF reply_on_100 strings_on_100]
  obtain m where G: \<open>GetProp (device (''{"id":1,"result":["on","100"]}'' @ CRLF)) lamp
              [''power'', ''bright''] = (Inr m, [Dial ''192.168.0.27:55443'' True, SetReadDeadline,
      Write (''{"id":1,"method":"get_prop","params":["power","bright",]}'' @ CRLF),
      Read, Close])\<close>
    and P: \<open>\<forall>i < length [''power'', ''bright''].
             (\<forall>j. i < j \<and> j < length [''power'', ''bright''] \<longrightarrow>
                  [''power'', ''bright''] ! j \<noteq> [''power'', ''bright''] ! i) \<longrightarrow>
             m ([''power'', ''bright''] ! i) = Some ([''on'', ''100''] ! i)\<close>
    and C: \<open>distinct [''power'', ''bright''] \<longrightarrow> card (dom m) = length [''power'', ''bright'']\<close>
    by auto
  have L0: \<open>\<forall>j. 0 < j \<and> j < length [''power'', ''bright''] \<longrightarrow>
               [''power'', ''bright''] ! j \<noteq> [''power'', ''bright''] ! 0\<close>
    by (auto simp: less_Suc_eq)
  have L1: \<open>\<forall>j. 1 < j \<and> j < length [''power'', ''bright''] \<longrightarrow>
               [''power'', ''bright''] ! j \<noteq> [''power'', ''bright''] ! 1\<close>
    by (auto simp: less_Suc_eq)
  have \<open>0 < length [''power'', ''bright'']\<close> by simp
  with P L0 have \<open>m ([''power'', ''bright''] ! 0) = Some ([''on'', ''100''] ! 0)\<close>
    by blast
  then have p0: \<open>m ''power'' = Some ''on''\<close> by simp
  have \<open>1 < length [''power'', ''bright'']\<close> by simp
  with P L1 have \<open>m ([''power'', ''bright''] ! 1) = Some ([''on'', ''100''] ! 1)\<close>
    by blast
  then have p1: \<open>m ''bright'' = Some ''100''\<close> by simp
  from C have c: \<open>card (dom m) = 2\<close> by simp
  from G have g: \<open>fst (GetProp (device (''{"id":1,"result":["on","100"]}'' @ CRLF)) lamp
              [''power'', ''bright'']) = Inr m\<close> by (simp only: fst_conv)
  from g p0 p1 c w show ?thesis by blast
qed


lemma reply_on_off:
  \<open>request (device (''{"id":1,"result":["on","off"]}'' @ CRLF)) lamp
      (GetProp_cmd [''power'', ''power'']) =
    (Inr ''["on","off"]'',
     [Dial ''192.168.0.27:55443'' True, SetReadDeadline,
      Write (''{"id":1,"method":"get_prop","params":["power","power",]}'' @ CRLF),
      Read, Close])\<close>
  by code_simp

lemma strings_on_off: \<open>fst (Unmarshal_strings ''["on","off"]'') = [''on'', ''off'']\<close>
  by code_simp

text \<open>
  Claim C1, as stated, fails: two names requested, two values returned, and the map has
  one entry, since the two names are the same.
\<close>

theorem GetProp_repeated_name:
  \<open>fst (GetProp (device (''{"id":1,"result":["on","off"]}'' @ CRLF)) lamp
          [''power'', ''power'']) = Inr (map_of [(''power'', ''off'')]) \<and>
   card (dom (map_of [(''power'', ''off'')])) = 1 \<and>
   length [''power'', ''power''] = 2\<close>
proof -
  have \<open>GetProp (device (''{"id":1,"result":["on","off"]}'' @ CRLF)) lamp
          [''power'', ''power''] =
        (case (Inr ''["on","off"]'',
     [Dial ''192.168.0.27:55443'' True, SetReadDeadline,
      Write (''{"id":1,"method":"get_prop","params":["power","power",]}'' @ CRLF),
      Read, Close]) of
        (Inl err, trace) \<Rightarrow> (Inl err, trace)
      | (Inr res, trace) \<Rightarrow>
          (let props = fst (Unmarshal_strings res) in
           if length props \<noteq> length [''power'', ''power'']
           then (Inl (errorString ''Wrong response''), trace)
           else (Inr (foldl (\<lambda>m (i, prop). m([''power'', ''power''] ! i \<mapsto> prop)) Map.empty
                        (enumerate 0 props)),
                 trace)))\<close>
    by (simp only: GetProp_def reply_on_off)
  then have \<open>fst (GetProp (device (''{"id":1,"result":["on","off"]}'' @ CRLF)) lamp
          [''power'', ''power'']) = Inr (map_of [(''power'', ''off'')])\<close>
    by (simp add: strings_on_off)
  then show ?thesis by simp
qed

end
